theory Spec2Isabelle
  imports
    Main
    "HOL-Library.Sublist"
    "HOL-Library.AList"
    "HOL-Library.Char_ord"
    "HOL-Library.List_Lexorder"
    "HOL-Library.Product_Lexorder"
begin

section \<open>The SDK installer \<^verbatim>\<open>toolchain-pyz-extract.py\<close>\<close>

text \<open>
  The installer is one Python script. Its pure helpers become HOL functions, its
  exceptions become values of the type \<open>exc\<close>, and the parts of the world it acts on
  (standard input, the file system under the destination, standard output, the debug
  log) are passed explicitly. The model covers \<^verbatim>\<open>main\<close> and what it calls; the check of the
  Python version at import and \<^verbatim>\<open>check_env\<close>, which cleans the environment before \<^verbatim>\<open>main\<close>
  runs, are left out, as is the log level that \<^verbatim>\<open>main\<close> sets from its arguments.

  Python's \<^verbatim>\<open>str\<close> is modelled by \<^typ>\<open>string\<close>: a list of code points, restricted to the
  code points below 256, which is what \<^typ>\<open>char\<close> holds. \<open>length\<close> is Python's
  \<^verbatim>\<open>len\<close>.
\<close>

subsection \<open>Python's string operations\<close>

text \<open>\<^verbatim>\<open>str.isspace\<close> on one character; the same characters are matched by \<^verbatim>\<open>\s\<close> in a
  \<^verbatim>\<open>str\<close> pattern and removed by \<^verbatim>\<open>str.strip()\<close>. Below 256 these are the code points
  9 to 13, 28 to 32, 133 and 160.\<close>

definition isspace :: "char \<Rightarrow> bool" where
  "isspace c =
     (let n = (of_char c :: nat)
      in (9 \<le> n \<and> n \<le> 13) \<or> (28 \<le> n \<and> n \<le> 32) \<or> n = 133 \<or> n = 160)"

text \<open>\<^verbatim>\<open>str.lower\<close> on one character: the ASCII capitals and the Latin-1 capitals
  (192 to 222 without the multiplication sign 215) move up by 32.\<close>

definition lower_char :: "char \<Rightarrow> char" where
  "lower_char c =
     (let n = (of_char c :: nat)
      in if (65 \<le> n \<and> n \<le> 90) \<or> (192 \<le> n \<and> n \<le> 222 \<and> n \<noteq> 215)
         then char_of (n + 32) else c)"

definition lower :: "string \<Rightarrow> string" where
  "lower s = map lower_char s"

text \<open>\<^verbatim>\<open>str.rstrip()\<close> and \<^verbatim>\<open>str.strip()\<close> with no argument.\<close>

definition rstrip :: "string \<Rightarrow> string" where
  "rstrip s = rev (dropWhile isspace (rev s))"

definition strip :: "string \<Rightarrow> string" where
  "strip s = rstrip (dropWhile isspace s)"

text \<open>\<^verbatim>\<open>sub in s\<close> for strings: \<open>sub\<close> occurs in \<open>s\<close> as a contiguous run.\<close>

fun str_contains :: "string \<Rightarrow> string \<Rightarrow> bool" where
  "str_contains [] sub = (sub = [])"
| "str_contains (c # cs) sub = (prefix sub (c # cs) \<or> str_contains cs sub)"

text \<open>\<^verbatim>\<open>s.replace(old, new)\<close>: the occurrences of \<open>old\<close> are found from the left and do
  not overlap; an empty \<open>old\<close> matches before every character and at the end.\<close>

function replace :: "string \<Rightarrow> string \<Rightarrow> string \<Rightarrow> string" where
  "replace [] old new = (if old = [] then new else [])"
| "replace (c # cs) old new =
     (if old = [] then new @ c # replace cs old new
      else if prefix old (c # cs) then new @ replace (drop (length old) (c # cs)) old new
      else c # replace cs old new)"
  by pat_completeness auto
termination
  by (relation "measure (\<lambda>(s, old, new). length s)") (auto simp: neq_Nil_conv)

text \<open>The lines a text file yields when it is iterated (\<^verbatim>\<open>for l in f\<close>): each line keeps
  its newline, the last one may have none.\<close>

fun readlines :: "string \<Rightarrow> string list" where
  "readlines [] = []"
| "readlines (c # cs) =
     (if c = CHR 0x0A then [c] # readlines cs
      else (case readlines cs of [] \<Rightarrow> [[c]] | l # ls \<Rightarrow> (c # l) # ls))"

subsection \<open>Paths and the file system\<close>

text \<open>
  Paths are POSIX paths. \<^verbatim>\<open>os.path.join(a, b)\<close> with two arguments: an absolute \<open>b\<close>
  discards \<open>a\<close>; otherwise one slash separates the two.
\<close>

definition path_join :: "string \<Rightarrow> string \<Rightarrow> string" where
  "path_join a b =
     (if prefix ''/'' b then b
      else if a = [] \<or> suffix ''/'' a then a @ b
      else a @ ''/'' @ b)"

text \<open>\<^verbatim>\<open>os.path.dirname(p)\<close>: everything up to the last slash, without trailing slashes
  unless it consists of slashes only.\<close>

definition dirname :: "string \<Rightarrow> string" where
  "dirname p =
     (let head = rev (dropWhile (\<lambda>c. c \<noteq> CHR ''/'') (rev p))
      in if head \<noteq> [] \<and> \<not> list_all (\<lambda>c. c = CHR ''/'') head
         then rev (dropWhile (\<lambda>c. c = CHR ''/'') (rev head)) else head)"

text \<open>
  The file system is a finite table from paths to what lies there: a regular file with
  its text, a directory, a symbolic link with its target, or a special file (fifo,
  device). The table is flat: a path is looked up as a whole, and symbolic links are
  followed at the last component only.
\<close>

datatype node = File string | Dir | Link string | Special

type_synonym fs = "(string \<times> node) list"

text \<open>The exceptions that reach \<^verbatim>\<open>main\<close>; those of the file system carry the path.\<close>

datatype exc =
    PermissionError string
  | IsADirectoryError string
  | FileExistsError string
  | FileNotFoundError string
  | OSError string
  | CalledProcessError int
  | UnboundLocalError string
  | IndexError

text \<open>
  The state of a run: the file system, the paths the process is not allowed to change,
  the lines still to be read from standard input, what was written to standard output
  (one element per write), the messages handed to \<^verbatim>\<open>logging\<close> (whatever the log level),
  and the two counters of \<^verbatim>\<open>main\<close> that \<^verbatim>\<open>extract_file\<close> updates.
\<close>

record state =
  files :: fs
  readonly :: "string list"
  stdin :: "string list"
  stdout :: "string list"
  log :: "string list"
  current_size :: int
  printed_checkpoints :: int

type_synonym 'a res = "(exc + 'a) \<times> state"

definition print :: "string \<Rightarrow> state \<Rightarrow> state" where
  "print s st = st\<lparr>stdout := stdout st @ [s @ [CHR 0x0A]]\<rparr>"

definition logging :: "string \<Rightarrow> state \<Rightarrow> state" where
  "logging s st = st\<lparr>log := log st @ [s]\<rparr>"

text \<open>\<^verbatim>\<open>"'%s'" % s\<close>\<close>

definition quoted :: "string \<Rightarrow> string" where
  "quoted s = [CHR 0x27] @ s @ [CHR 0x27]"

text \<open>\<^verbatim>\<open>input(prompt)\<close>: the prompt is written, one line is read; \<open>None\<close> is \<^verbatim>\<open>EOFError\<close>.\<close>

definition input :: "string \<Rightarrow> state \<Rightarrow> string option \<times> state" where
  "input prompt st =
     (let st' = st\<lparr>stdout := stdout st @ [prompt]\<rparr>
      in case stdin st' of
           [] \<Rightarrow> (None, st')
         | l # ls \<Rightarrow> (Some l, st'\<lparr>stdin := ls\<rparr>))"

text \<open>\<^verbatim>\<open>os.path.lexists\<close> and \<^verbatim>\<open>os.path.islink\<close> look at the path itself.\<close>

definition lexists :: "fs \<Rightarrow> string \<Rightarrow> bool" where
  "lexists t p = (map_of t p \<noteq> None)"

definition islink :: "fs \<Rightarrow> string \<Rightarrow> bool" where
  "islink t p = (case map_of t p of Some (Link _) \<Rightarrow> True | _ \<Rightarrow> False)"

text \<open>Following symbolic links from a path, at most \<open>n\<close> of them (the kernel gives up
  after 40 with \<^verbatim>\<open>ELOOP\<close>, here \<open>None\<close>). A relative target starts at the directory of
  the link.\<close>

fun follow :: "nat \<Rightarrow> fs \<Rightarrow> string \<Rightarrow> string option" where
  "follow 0 t p = None"
| "follow (Suc n) t p =
     (case map_of t p of
        Some (Link target) \<Rightarrow> follow n t (path_join (dirname p) target)
      | _ \<Rightarrow> Some p)"

text \<open>\<^verbatim>\<open>os.path.isdir\<close> and \<^verbatim>\<open>os.path.exists\<close> follow symbolic links.\<close>

definition isdir :: "fs \<Rightarrow> string \<Rightarrow> bool" where
  "isdir t p = (case follow 40 t p of None \<Rightarrow> False | Some q \<Rightarrow> map_of t q = Some Dir)"

definition exists :: "fs \<Rightarrow> string \<Rightarrow> bool" where
  "exists t p = (case follow 40 t p of None \<Rightarrow> False | Some q \<Rightarrow> map_of t q \<noteq> None)"

text \<open>\<^verbatim>\<open>os.unlink(p)\<close>, also called \<^verbatim>\<open>os.remove\<close>: removes the entry at the path itself and
  refuses a directory.\<close>

definition unlink :: "string \<Rightarrow> state \<Rightarrow> unit res" where
  "unlink p st =
     (case map_of (files st) p of
        None \<Rightarrow> (Inl (FileNotFoundError p), st)
      | Some Dir \<Rightarrow> (Inl (IsADirectoryError p), st)
      | Some _ \<Rightarrow>
          if p \<in> set (readonly st) then (Inl (PermissionError p), st)
          else (Inr (), st\<lparr>files := AList.delete p (files st)\<rparr>))"

text \<open>Opening a path for writing, writing the text and closing (\<^verbatim>\<open>open(p, "w")\<close>): the
  file behind a symbolic link is the one written; a missing file is created.\<close>

definition write_file :: "string \<Rightarrow> string \<Rightarrow> state \<Rightarrow> unit res" where
  "write_file p text st =
     (case follow 40 (files st) p of
        None \<Rightarrow> (Inl (OSError p), st)
      | Some q \<Rightarrow>
          (case map_of (files st) q of
             Some Dir \<Rightarrow> (Inl (IsADirectoryError p), st)
           | Some Special \<Rightarrow>
               if q \<in> set (readonly st) then (Inl (PermissionError p), st) else (Inr (), st)
           | _ \<Rightarrow>
               if q \<in> set (readonly st) then (Inl (PermissionError p), st)
               else (Inr (), st\<lparr>files := AList.update q (File text) (files st)\<rparr>)))"

text \<open>Opening a path for reading and reading all of it (\<^verbatim>\<open>open(p, "r")\<close>). What a fifo or
  a device would deliver is not modelled: reading one is an \<^verbatim>\<open>OSError\<close> here.\<close>

definition read_file :: "fs \<Rightarrow> string \<Rightarrow> exc + string" where
  "read_file t p =
     (case follow 40 t p of
        None \<Rightarrow> Inl (OSError p)
      | Some q \<Rightarrow>
          (case map_of t q of
             None \<Rightarrow> Inl (FileNotFoundError p)
           | Some Dir \<Rightarrow> Inl (IsADirectoryError p)
           | Some (File text) \<Rightarrow> Inr text
           | Some _ \<Rightarrow> Inl (OSError p)))"

text \<open>\<^verbatim>\<open>os.makedirs(p, exist_ok=True)\<close>; in the flat table only \<open>p\<close> itself is created.\<close>

definition makedirs :: "string \<Rightarrow> state \<Rightarrow> unit res" where
  "makedirs p st =
     (if isdir (files st) p then (Inr (), st)
      else if lexists (files st) p then (Inl (FileExistsError p), st)
      else if p \<in> set (readonly st) then (Inl (PermissionError p), st)
      else (Inr (), st\<lparr>files := AList.update p Dir (files st)\<rparr>))"

subsection \<open>The archive and its extraction\<close>

text \<open>
  A member of the SDK archive (\<^verbatim>\<open>tarfile.TarInfo\<close>): its name, its size in bytes and what
  it is. \<open>Other\<close> stands for fifos and device nodes; hard links are not modelled.
\<close>

datatype kind = Regular string | Directory | Symlink string | Other

record tarinfo =
  f_name :: string
  f_size :: nat
  f_kind :: kind

definition CHECKPOINT :: int where
  "CHECKPOINT = 25600000"

text \<open>
  Modelled from the spec: \<^verbatim>\<open>tf.extract(f, destination)\<close> is the method of Python's tarfile
  library, which is not part of the repository. It materializes the member at the
  destination joined with the member's name: it writes the bytes of a regular file
  (opening the path, so a symbolic link there is followed), creates a directory unless
  one is there, creates a symbolic link with the recorded target (removing what is there
  first), or creates the special file.
\<close>

definition tar_extract :: "tarinfo \<Rightarrow> string \<Rightarrow> state \<Rightarrow> unit res" where
  "tar_extract f destination st =
     (let targetpath = path_join destination (f_name f)
      in case f_kind f of
           Regular text \<Rightarrow> write_file targetpath text st
         | Directory \<Rightarrow>
             if map_of (files st) targetpath = None then
               if targetpath \<in> set (readonly st) then (Inl (PermissionError targetpath), st)
               else (Inr (), st\<lparr>files := AList.update targetpath Dir (files st)\<rparr>)
             else if isdir (files st) targetpath then (Inr (), st)
             else (Inl (FileExistsError targetpath), st)
         | Symlink target \<Rightarrow>
             (case (if lexists (files st) targetpath then unlink targetpath st else (Inr (), st)) of
                (Inl e, st') \<Rightarrow> (Inl e, st')
              | (Inr _, st') \<Rightarrow>
                  if targetpath \<in> set (readonly st') then (Inl (PermissionError targetpath), st')
                  else (Inr (), st'\<lparr>files := AList.update targetpath (Link target) (files st')\<rparr>))
         | Other \<Rightarrow>
             if lexists (files st) targetpath then (Inl (FileExistsError targetpath), st)
             else if targetpath \<in> set (readonly st) then (Inl (PermissionError targetpath), st)
             else (Inr (), st\<lparr>files := AList.update targetpath Special (files st)\<rparr>))"

text \<open>
  The first half of \<^verbatim>\<open>extract_file\<close>: what lies at the member's path is removed when it is
  a symbolic link or not a directory.
\<close>

definition extract_file_remove :: "string \<Rightarrow> tarinfo \<Rightarrow> state \<Rightarrow> unit res" where
  "extract_file_remove destination f st =
     (let dest = path_join destination (f_name f)
      in if lexists (files st) dest \<and> (islink (files st) dest \<or> \<not> isdir (files st) dest)
         then unlink dest (logging (''Removing '' @ quoted dest) st)
         else (Inr (), st))"

text \<open>The progress dots at the end of \<^verbatim>\<open>extract_file\<close>.\<close>

definition extract_file_progress :: "tarinfo \<Rightarrow> state \<Rightarrow> state" where
  "extract_file_progress f st =
     (let st1 = st\<lparr>current_size := current_size st + int (f_size f)\<rparr>;
          num = current_size st1 div CHECKPOINT - printed_checkpoints st1
      in if num \<noteq> 0
         then st1\<lparr>stdout := stdout st1 @ [replicate (nat num) CHR ''.''],
                  printed_checkpoints := printed_checkpoints st1 + num\<rparr>
         else st1)"

text \<open>\<^verbatim>\<open>extract_file(tf, f)\<close>, the closure of \<^verbatim>\<open>main\<close>; \<open>destination\<close> is the variable of
  \<^verbatim>\<open>main\<close> it reads.\<close>

definition extract_file :: "string \<Rightarrow> tarinfo \<Rightarrow> state \<Rightarrow> unit res" where
  "extract_file destination f st =
     (case extract_file_remove destination f st of
        (Inl e, st1) \<Rightarrow> (Inl e, st1)
      | (Inr _, st1) \<Rightarrow>
          (case tar_extract f destination
                  (logging (''Extracting '' @ quoted (path_join destination (f_name f))) st1) of
             (Inl e, st2) \<Rightarrow> (Inl e, st2)
           | (Inr _, st2) \<Rightarrow> (Inr (), extract_file_progress f st2)))"

text \<open>The loop over the archive in \<^verbatim>\<open>main\<close>: a member whose name contains one of the
  excluded strings is skipped, the others are extracted in the order of the archive.\<close>

definition excluded :: "string set \<Rightarrow> tarinfo \<Rightarrow> bool" where
  "excluded extract_exclude f = (\<exists>s \<in> extract_exclude. str_contains (f_name f) s)"

fun extract_all :: "string set \<Rightarrow> string \<Rightarrow> tarinfo list \<Rightarrow> state \<Rightarrow> unit res" where
  "extract_all extract_exclude destination [] st = (Inr (), st)"
| "extract_all extract_exclude destination (f # tf) st =
     (if excluded extract_exclude f then extract_all extract_exclude destination tf st
      else (case extract_file destination f st of
              (Inl e, st') \<Rightarrow> (Inl e, st')
            | (Inr _, st') \<Rightarrow> extract_all extract_exclude destination tf st'))"

subsection \<open>Prompts\<close>

text \<open>
  \<^verbatim>\<open>prompt_bool(prompt, default=True)\<close>: the answer is the default at end of file and on
  an empty line, and otherwise whether the line, in lower case and stripped, is \<^verbatim>\<open>y\<close>.
\<close>

definition prompt_bool :: "string \<Rightarrow> bool \<Rightarrow> state \<Rightarrow> bool \<times> state" where
  "prompt_bool prompt dflt st =
     (let prompt' = prompt @ '' ['' @ (if dflt then ''Y/n'' else ''y/N'') @ '']''
      in case input prompt' st of
           (None, st') \<Rightarrow> (dflt, st')
         | (Some user_input, st') \<Rightarrow>
             if user_input = [] then (dflt, st')
             else (strip (lower user_input) = ''y'', st'))"

subsection \<open>Relocation\<close>

text \<open>
  The loop of \<^verbatim>\<open>relocate_file\<close> over the lines of the script: every line is written with
  the old prefix replaced, and the flag is raised by a line that contains the marker
  (looked for before the replacement).
\<close>

fun relocate_lines :: "string \<Rightarrow> string \<Rightarrow> string list \<Rightarrow> string \<times> bool" where
  "relocate_lines old new [] = ([], False)"
| "relocate_lines old new (l # ls) =
     (let (out, is_real_env_script) = relocate_lines old new ls
      in (replace l old new @ out,
          str_contains l ''OECORE_NATIVE_SYSROOT='' \<or> is_real_env_script))"

text \<open>\<^verbatim>\<open>os.rename\<close> as \<^verbatim>\<open>shutil.move(src, dst)\<close> uses it: what lies at \<open>src\<close> takes the place of
  \<open>dst\<close>. A \<open>dst\<close> that is a directory, into which \<^verbatim>\<open>shutil.move\<close> would move the file, does not
  arise here (it has just been read as a file) and is an \<^verbatim>\<open>OSError\<close>.\<close>

definition move :: "string \<Rightarrow> string \<Rightarrow> state \<Rightarrow> unit res" where
  "move src dst st =
     (case map_of (files st) src of
        None \<Rightarrow> (Inl (FileNotFoundError src), st)
      | Some n \<Rightarrow>
          if isdir (files st) dst then (Inl (OSError dst), st)
          else if src \<in> set (readonly st) \<or> dst \<in> set (readonly st)
          then (Inl (PermissionError dst), st)
          else if src = dst then (Inr (), st)
          else (Inr (), st\<lparr>files := AList.update dst n (AList.delete src (files st))\<rparr>))"

text \<open>
  \<^verbatim>\<open>relocate_file(name)\<close>, the second closure of \<^verbatim>\<open>main\<close>; \<open>sdkpath\<close> is the global \<^verbatim>\<open>SDKPATH\<close>
  and \<open>destination\<close> the variable of \<^verbatim>\<open>main\<close>. The script is opened, then the temporary
  file is opened for writing (which empties it), then the lines are read and written,
  and the temporary file is moved over the script.
\<close>

definition relocate_file :: "string \<Rightarrow> string \<Rightarrow> string \<Rightarrow> state \<Rightarrow> bool res" where
  "relocate_file sdkpath destination name st =
     (let tmp_file = name @ ''.tmp''
      in case read_file (files st) name of
           Inl e \<Rightarrow> (Inl e, st)
         | Inr _ \<Rightarrow>
             (case write_file tmp_file [] st of
                (Inl e, st1) \<Rightarrow> (Inl e, st1)
              | (Inr _, st1) \<Rightarrow>
                  (let st2 = logging (''Relocating '' @ quoted name) st1
                   in case read_file (files st2) name of
                        Inl e \<Rightarrow> (Inl e, st2)
                      | Inr text \<Rightarrow>
                          (let (out, is_real_env_script) =
                                 relocate_lines sdkpath destination (readlines text)
                           in case write_file tmp_file out st2 of
                                (Inl e, st3) \<Rightarrow> (Inl e, st3)
                              | (Inr _, st3) \<Rightarrow>
                                  (case move tmp_file name st3 of
                                     (Inl e, st4) \<Rightarrow> (Inl e, st4)
                                   | (Inr _, st4) \<Rightarrow> (Inr is_real_env_script, st4))))))"

text \<open>
  \<^verbatim>\<open>environment_setup_scripts(destination)\<close>: the sorted paths in the destination directory
  whose name starts with \<^verbatim>\<open>environment-setup-\<close>.
\<close>

definition is_setup_script :: "string \<Rightarrow> string \<Rightarrow> bool" where
  "is_setup_script destination p =
     (let pre = path_join destination ''environment-setup-''
      in prefix pre p \<and> CHR ''/'' \<notin> set (drop (length pre) p))"

definition environment_setup_scripts :: "string \<Rightarrow> fs \<Rightarrow> string list" where
  "environment_setup_scripts destination t =
     sort (filter (is_setup_script destination) (map fst t))"

text \<open>The loop of \<^verbatim>\<open>main\<close> over the scripts; \<open>real\<close> is \<^verbatim>\<open>real_env_setup_script\<close>.\<close>

fun relocate_scripts ::
  "string \<Rightarrow> string \<Rightarrow> string list \<Rightarrow> string option \<Rightarrow> state \<Rightarrow> string option res" where
  "relocate_scripts sdkpath destination [] real st = (Inr real, st)"
| "relocate_scripts sdkpath destination (s # ss) real st =
     (case relocate_file sdkpath destination s st of
        (Inl e, st') \<Rightarrow> (Inl e, st')
      | (Inr r, st') \<Rightarrow>
          relocate_scripts sdkpath destination ss (if r then Some s else real) st')"

subsection \<open>The compatibility checks\<close>

text \<open>\<^verbatim>\<open>str.splitlines()\<close>: the line ends are dropped; below 256 a line ends at the code
  points 10 to 13, 28 to 30 and 133, and a carriage return with the newline after it is
  one line end.\<close>

definition linebreak :: "char \<Rightarrow> bool" where
  "linebreak c =
     (let n = (of_char c :: nat)
      in (10 \<le> n \<and> n \<le> 13) \<or> (28 \<le> n \<and> n \<le> 30) \<or> n = 133)"

function splitlines :: "string \<Rightarrow> string list" where
  "splitlines [] = []"
| "splitlines (c # cs) =
     (if c = CHR 0x0D \<and> prefix [CHR 0x0A] cs then [] # splitlines (tl cs)
      else if linebreak c then [] # splitlines cs
      else (case splitlines cs of [] \<Rightarrow> [[c]] | l # ls \<Rightarrow> (c # l) # ls))"
  by pat_completeness auto
termination
  by (relation "measure length") (auto simp: prefix_def)

text \<open>
  Modelled from the spec: \<^verbatim>\<open>sort -V\<close> is an external program, run by \<^verbatim>\<open>ver_lteq\<close> in a
  subprocess; its code is not part of the repository. The spec describes its order as a
  multi-segment numeric comparison of version strings that may differ in their number of
  segments. So a line is cut at its dots, every segment is read as a decimal number (its
  leading digits), and the lists of numbers are compared from the left, a proper prefix
  coming first. Lines that compare equal are ordered as plain strings, so that the
  output depends on the set of lines only. The program reads lines from its input and
  writes them, sorted, each with a newline.
\<close>

definition isdigit :: "char \<Rightarrow> bool" where
  "isdigit c = (let n = (of_char c :: nat) in 48 \<le> n \<and> n \<le> 57)"

fun decimal :: "nat \<Rightarrow> string \<Rightarrow> nat" where
  "decimal acc [] = acc"
| "decimal acc (c # cs) =
     (if isdigit c then decimal (10 * acc + (of_char c - 48)) cs else acc)"

fun segments :: "string \<Rightarrow> string list" where
  "segments [] = [[]]"
| "segments (c # cs) =
     (if c = CHR ''.'' then [] # segments cs
      else (case segments cs of [] \<Rightarrow> [[c]] | g # gs \<Rightarrow> (c # g) # gs))"

definition version_key :: "string \<Rightarrow> nat list" where
  "version_key l = map (decimal 0) (segments l)"

definition sort_V :: "string \<Rightarrow> string" where
  "sort_V text =
     concat (map (\<lambda>l. l @ [CHR 0x0A])
       (sort_key (\<lambda>l. (version_key l, l))
          (map (takeWhile (\<lambda>c. c \<noteq> CHR 0x0A)) (readlines text))))"

text \<open>
  \<^verbatim>\<open>ver_lteq(a, b)\<close> and \<^verbatim>\<open>ver_lt(a, b)\<close>. The sorting program is the parameter \<open>sorter\<close>: it maps
  what it reads to what it writes. Taking the first line of no lines is an
  \<^verbatim>\<open>IndexError\<close>.
\<close>

definition ver_lteq :: "(string \<Rightarrow> string) \<Rightarrow> string \<Rightarrow> string \<Rightarrow> exc + bool" where
  "ver_lteq sorter a b =
     (case splitlines (sorter (a @ [CHR 0x0A] @ b)) of
        [] \<Rightarrow> Inl IndexError
      | l # _ \<Rightarrow> Inr (l = a))"

definition ver_lt :: "(string \<Rightarrow> string) \<Rightarrow> string \<Rightarrow> string \<Rightarrow> exc + bool" where
  "ver_lt sorter a b = (if a = b then Inr False else ver_lteq sorter a b)"

text \<open>\<^verbatim>\<open>re.sub(pattern, repl, s)\<close> for a pattern that is a sequence of character classes,
  as the three patterns of \<^verbatim>\<open>translate_arch\<close> are: the matches are found from the left
  and do not overlap.\<close>

definition re_match :: "(char \<Rightarrow> bool) list \<Rightarrow> string \<Rightarrow> bool" where
  "re_match pattern s =
     (length pattern \<le> length s \<and> list_all2 (\<lambda>cls c. cls c) pattern (take (length pattern) s))"

function re_sub :: "(char \<Rightarrow> bool) list \<Rightarrow> string \<Rightarrow> string \<Rightarrow> string" where
  "re_sub pattern repl [] = (if pattern = [] then repl else [])"
| "re_sub pattern repl (c # cs) =
     (if pattern = [] then repl @ c # re_sub pattern repl cs
      else if re_match pattern (c # cs)
      then repl @ re_sub pattern repl (drop (length pattern) (c # cs))
      else c # re_sub pattern repl cs)"
  by pat_completeness auto
termination
  by (relation "measure (\<lambda>(pattern, repl, s). length s)") (auto simp: neq_Nil_conv)

definition translate_arch :: "string \<Rightarrow> string" where
  "translate_arch arch =
     (let arch1 = re_sub [(=) CHR ''i'', (\<lambda>c. c \<in> set ''3456''), (=) CHR ''8'', (=) CHR ''6'']
                    ''ix86'' arch;
          arch2 = re_sub [(=) CHR ''x'', (=) CHR ''8'', (=) CHR ''6'', (\<lambda>c. c \<in> set ''-_''),
                          (=) CHR ''6'', (=) CHR ''4'']
                    ''x86_64'' arch1
      in re_sub (map (=) ''AMD64'') ''x86_64'' arch2)"

subsection \<open>The build-time constants, the arguments and the world\<close>

text \<open>The values substituted for the \<^verbatim>\<open>@...@\<close> placeholders when the installer is built,
  and the platform it runs on.\<close>

record config =
  SDK_TITLE :: string
  SDK_VERSION :: string
  SDK_ARCH :: string
  SDK_EXTENSIBLE :: bool
  SDKEXTPATH_subst :: string
  SDKPATH_subst :: string
  SDK_GCC_VER :: string
  SDK_EXT_TYPE :: string
  OLDEST_KERNEL :: string
  REAL_MULTIMACH_TARGET_SYS :: string
  PLATFORM_IS_WINDOWS :: bool

definition SDKPATH :: "config \<Rightarrow> string" where
  "SDKPATH cfg = (if SDK_EXTENSIBLE cfg then SDKEXTPATH_subst cfg else SDKPATH_subst cfg)"

text \<open>The parsed command line.\<close>

record args =
  yes :: bool
  dir :: "string option"
  save_scripts :: bool
  relocate :: bool
  debug :: nat
  list_files :: bool
  prepare_buildsystem :: bool
  publish :: bool

text \<open>
  What the installer gets from outside: the output of \<^verbatim>\<open>uname -r\<close>, the machine name, the
  version that \<^verbatim>\<open>get_gcc_version()\<close> finds or the exception of running \<^verbatim>\<open>gcc\<close>, the sorting
  program, the path resolution
  \<^verbatim>\<open>os.path.realpath(os.path.abspath(p))\<close>, the name of the next temporary file, the
  shell (from its command line and the file system to the file system it leaves and
  its exit status), and the members of the installer's own archive: the two hook
  fragments and the SDK archive.
\<close>

record world =
  uname_r :: string
  machine :: string
  gcc_version :: "exc + string option"
  sort_program :: "string \<Rightarrow> string"
  realpath :: "string \<Rightarrow> string"
  mktemp :: string
  sh :: "string list \<Rightarrow> fs \<Rightarrow> fs \<times> int"
  pre_install_command :: string
  post_install_command :: string
  sdk_tar :: "tarinfo list"

text \<open>\<^verbatim>\<open>"%d" % n\<close>\<close>

fun digits :: "nat \<Rightarrow> string" where
  "digits n = (if n < 10 then [char_of (48 + n)] else digits (n div 10) @ [char_of (48 + n mod 10)])"

definition str_int :: "int \<Rightarrow> string" where
  "str_int i = (if i < 0 then ''-'' @ digits (nat (- i)) else digits (nat i))"

definition str_bool :: "bool \<Rightarrow> string" where
  "str_bool b = (if b then ''True'' else ''False'')"

text \<open>\<^verbatim>\<open>" ".join(command)\<close>\<close>

fun join_spaces :: "string list \<Rightarrow> string" where
  "join_spaces [] = []"
| "join_spaces [x] = x"
| "join_spaces (x # xs) = x @ '' '' @ join_spaces xs"

text \<open>\<^verbatim>\<open>run_command(*command)\<close> without capture, for the shell.\<close>

definition run_command :: "world \<Rightarrow> string list \<Rightarrow> state \<Rightarrow> unit res" where
  "run_command w command st =
     (let st1 = logging (''Running '' @ quoted (join_spaces command)) st;
          (t, returncode) = sh w command (files st1);
          st2 = st1\<lparr>files := t\<rparr>
      in if returncode \<noteq> 0
         then (Inl (CalledProcessError returncode),
               logging (''Command failed with '' @ str_int returncode) st2)
         else (Inr (), st2))"

text \<open>
  \<^verbatim>\<open>with run_script() as script:\<close> around a block that writes \<open>body\<close>: the temporary file is
  created and written, logged line by line, run with the shell and removed, also when
  the shell fails.
\<close>

definition run_script :: "world \<Rightarrow> string list \<Rightarrow> state \<Rightarrow> unit res" where
  "run_script w body st =
     (let name = mktemp w;
          text = concat ((''#!/bin/sh'' @ [CHR 0x0A]) # body);
          st1 = st\<lparr>files := AList.update name (File text) (files st)\<rparr>;
          st2 = fold (\<lambda>l. logging (''> '' @ rstrip l)) (readlines text)
                  (logging ''RUNNING SCRIPT:'' st1);
          (r, st3) = run_command w [''/bin/sh'', name] st2
      in case unlink name st3 of
           (Inl e, st4) \<Rightarrow> (Inl e, st4)
         | (Inr _, st4) \<Rightarrow> (r, st4))"

subsection \<open>The installer's \<^verbatim>\<open>main\<close>\<close>

text \<open>
  \<^verbatim>\<open>main\<close> is cut into its phases. A phase raises, makes \<^verbatim>\<open>main\<close> return an exit status,
  or hands a value to the next phase.
\<close>

datatype 'a step = Raise exc | Return int | Next 'a

definition dquoted :: "string \<Rightarrow> string" where
  "dquoted s = [CHR 0x22] @ s @ [CHR 0x22]"

text \<open>\<^verbatim>\<open>get_kernel_version()\<close>: the output of \<^verbatim>\<open>uname -r\<close> without trailing white space. That
  the command fails is not modelled.\<close>

definition get_kernel_version :: "world \<Rightarrow> state \<Rightarrow> string \<times> state" where
  "get_kernel_version w st =
     (rstrip (uname_r w), logging (''Running '' @ quoted ''uname -r'') st)"

text \<open>\<^verbatim>\<open>get_gcc_version()\<close>: the version found in the output of \<^verbatim>\<open>gcc --version\<close>, if any, or
  the exception of running the command.\<close>

definition get_gcc_version :: "world \<Rightarrow> state \<Rightarrow> string option res" where
  "get_gcc_version w st =
     (let st1 = logging (''Running '' @ quoted ''gcc --version'') st
      in case gcc_version w of
           Inl (CalledProcessError returncode) \<Rightarrow>
             (Inl (CalledProcessError returncode),
              logging (''Command failed with '' @ str_int returncode) st1)
         | r \<Rightarrow> (r, st1))"

text \<open>The check of the kernel version (not on Windows).\<close>

definition main_compat_kernel :: "config \<Rightarrow> world \<Rightarrow> state \<Rightarrow> unit step \<times> state" where
  "main_compat_kernel cfg w st =
     (if \<not> PLATFORM_IS_WINDOWS cfg then
        (let (kernel_version, st0) = get_kernel_version w st;
             st1 = logging (''Kernel version is '' @ kernel_version) st0
         in case ver_lt (sort_program w) kernel_version (OLDEST_KERNEL cfg) of
              Inl e \<Rightarrow> (Raise e, st1)
            | Inr True \<Rightarrow>
                (Return 1, print (''Error: The SDK needs a kernel > '' @ OLDEST_KERNEL cfg) st1)
            | Inr False \<Rightarrow> (Next (), st1))
      else (Next (), st))"

text \<open>The check of the architecture.\<close>

definition main_compat_arch :: "config \<Rightarrow> world \<Rightarrow> state \<Rightarrow> unit step \<times> state" where
  "main_compat_arch cfg w st =
     (let host_arch = translate_arch (machine w);
          st1 = logging (''Host arch is '' @ host_arch) st;
          sdk_arch = translate_arch (SDK_ARCH cfg)
      in if host_arch \<noteq> sdk_arch \<and> (host_arch \<noteq> ''x86_64'' \<or> sdk_arch \<noteq> ''ix86'')
         then (Return 1,
               print (''Error: Incompatible SDK installer! Your host is '' @ host_arch
                      @ '' and this SDK was built for '' @ sdk_arch @ '' hosts.'') st1)
         else (Next (), st1))"

text \<open>The check of the compiler, for an extensible SDK; the value handed on is
  \<^verbatim>\<open>extract_exclude\<close>.\<close>

definition main_compat_gcc :: "config \<Rightarrow> world \<Rightarrow> state \<Rightarrow> string set step \<times> state" where
  "main_compat_gcc cfg w st =
     (if SDK_EXTENSIBLE cfg then
        (case get_gcc_version w st of
           (Inl e, st1) \<Rightarrow> (Raise e, st1)
         | (Inr host_gcc_ver, st1) \<Rightarrow>
             if (host_gcc_ver = Some ''4.8'' \<and> SDK_GCC_VER cfg = ''4.9'')
                \<or> (host_gcc_ver = Some ''4.8'' \<and> SDK_GCC_VER cfg = [])
                \<or> (host_gcc_ver = Some ''4.9'' \<and> SDK_GCC_VER cfg = [])
             then (Return 1,
                   print (''Error: Incompatible SDK installer! Your host gcc version is ''
                          @ (case host_gcc_ver of Some v \<Rightarrow> v | None \<Rightarrow> ''None'')
                          @ '' and this SDK was built by gcc higher version.'') st1)
             else (Next (insert ''ext-sdk-prepare.py''
                          (if SDK_EXT_TYPE cfg = ''minimal'' then {''sstate-cache''} else {})),
                   st1))
      else (Next {}, st))"

text \<open>The three checks in the order of \<^verbatim>\<open>main\<close>.\<close>

definition main_compat :: "config \<Rightarrow> world \<Rightarrow> state \<Rightarrow> string set step \<times> state" where
  "main_compat cfg w st =
     (case main_compat_kernel cfg w st of
        (Raise e, st1) \<Rightarrow> (Raise e, st1)
      | (Return c, st1) \<Rightarrow> (Return c, st1)
      | (Next _, st1) \<Rightarrow>
          (case main_compat_arch cfg w st1 of
             (Raise e, st2) \<Rightarrow> (Raise e, st2)
           | (Return c, st2) \<Rightarrow> (Return c, st2)
           | (Next _, st2) \<Rightarrow> main_compat_gcc cfg w st2))"

text \<open>The body of the pre-install script.\<close>

definition pre_install_script :: "config \<Rightarrow> world \<Rightarrow> string list" where
  "pre_install_script cfg w =
     [''DEFAULT_INSTALL_DIR='' @ dquoted (SDKPATH cfg) @ [CHR 0x0A],
      ''SUDO_EXEC='' @ dquoted [] @ [CHR 0x0A]]
     @ readlines (pre_install_command w)"

text \<open>The choice of the destination, before it is resolved.\<close>

definition main_destination :: "config \<Rightarrow> args \<Rightarrow> state \<Rightarrow> string \<times> state" where
  "main_destination cfg args st =
     (if dir args = None \<or> dir args = Some [] then
        if yes args then (SDKPATH cfg, st)
        else (case input (''Enter target directory for SDK (default: '' @ SDKPATH cfg @ ''): '') st of
                (None, st') \<Rightarrow> (SDKPATH cfg, st')
              | (Some destination, st') \<Rightarrow>
                  (if destination = [] then SDKPATH cfg else destination, st'))
      else (case dir args of Some destination \<Rightarrow> (destination, st) | None \<Rightarrow> (SDKPATH cfg, st)))"

text \<open>Everything up to the resolved destination: the compatibility checks, the title,
  the pre-install script (not on Windows) and the choice of the destination.\<close>

definition main_prepare ::
  "config \<Rightarrow> args \<Rightarrow> world \<Rightarrow> state \<Rightarrow> (string set \<times> string) step \<times> state" where
  "main_prepare cfg args w st =
     (case main_compat cfg w st of
        (Raise e, st1) \<Rightarrow> (Raise e, st1)
      | (Return c, st1) \<Rightarrow> (Return c, st1)
      | (Next extract_exclude, st1) \<Rightarrow>
          (let title = SDK_TITLE cfg @ '' installer version '' @ SDK_VERSION cfg;
               st2 = print (replicate (length title) CHR ''='') (print title st1)
           in case (if \<not> PLATFORM_IS_WINDOWS cfg
                    then run_script w (pre_install_script cfg w) st2 else (Inr (), st2)) of
                (Inl e, st3) \<Rightarrow> (Raise e, st3)
              | (Inr _, st3) \<Rightarrow>
                  (let (destination, st4) = main_destination cfg args st3
                   in (Next (extract_exclude, realpath w destination), st4))))"

text \<open>The confirmation.\<close>

definition main_confirm :: "config \<Rightarrow> args \<Rightarrow> string \<Rightarrow> state \<Rightarrow> bool \<times> state" where
  "main_confirm cfg args destination st =
     (if exists (files st)
           (path_join destination (''environment-setup-'' @ REAL_MULTIMACH_TARGET_SYS cfg))
      then
        (let st1 = print (''The directory '' @ dquoted destination
                          @ '' already contains a SDK for this architecture.'') st
         in if yes args then (True, st1)
            else prompt_bool ''If you continue, existing files will be overwritten! Proceed?''
                   False st1)
      else if yes args then (True, st)
      else prompt_bool (''You are about to install the SDK to '' @ dquoted destination
                        @ ''. Proceed?'') True st)"

text \<open>The handler \<^verbatim>\<open>except PermissionError as e\<close> around the extraction.\<close>

definition main_extract_handler :: "config \<Rightarrow> exc \<Rightarrow> state \<Rightarrow> unit step \<times> state" where
  "main_extract_handler cfg e st =
     (case e of
        PermissionError p \<Rightarrow>
          (let to_try = (if PLATFORM_IS_WINDOWS cfg then ''Administrative privileges''
                         else quoted ''sudo'')
           in (Return 1,
               print (''[Errno 13] Permission denied: '' @ quoted p)
                 (print (''Permission denied. Please try re-running with '' @ to_try @ '':'') st)))
      | _ \<Rightarrow> (Raise e, st))"

text \<open>The extraction. Of the listing that \<^verbatim>\<open>tf.list()\<close> prints, only the names are
  modelled.\<close>

definition main_extract ::
  "config \<Rightarrow> args \<Rightarrow> world \<Rightarrow> string set \<Rightarrow> string \<Rightarrow> state \<Rightarrow> unit step \<times> state" where
  "main_extract cfg args w extract_exclude destination st =
     (if list_files args then (Return 0, fold (\<lambda>f. print (f_name f)) (sdk_tar w) st)
      else
        (let st1 = logging (''Making directory '' @ quoted destination) (print ''Extracting SDK'' st)
         in case makedirs destination st1 of
              (Inl e, st2) \<Rightarrow> main_extract_handler cfg e st2
            | (Inr _, st2) \<Rightarrow>
                (let st3 = st2\<lparr>current_size := 0, printed_checkpoints := 0\<rparr>;
                     (r, st4) = extract_all extract_exclude destination (sdk_tar w) st3;
                     st5 = print [] st4
                 in case r of
                      Inl e \<Rightarrow> main_extract_handler cfg e st5
                    | Inr _ \<Rightarrow> (Next (), st5))))"

text \<open>The body of the post-install script.\<close>

definition post_install_script :: "config \<Rightarrow> args \<Rightarrow> world \<Rightarrow> string \<Rightarrow> string \<Rightarrow> string list" where
  "post_install_script cfg args w destination env_setup_script =
     [''DEFAULT_INSTALL_DIR='' @ dquoted (SDKPATH cfg) @ [CHR 0x0A],
      ''SUDO_EXEC='' @ dquoted [] @ [CHR 0x0A],
      ''env_setup_script='' @ dquoted env_setup_script @ [CHR 0x0A],
      ''target_sdk_dir='' @ dquoted destination @ [CHR 0x0A],
      ''relocate='' @ str_bool (relocate args) @ [CHR 0x0A],
      ''savescripts='' @ str_bool (save_scripts args) @ [CHR 0x0A]]
     @ readlines (post_install_command w)"

text \<open>\<^verbatim>\<open>try: ... os.remove(p) except: pass\<close> for one of the relocation scripts.\<close>

definition remove_quiet :: "string \<Rightarrow> state \<Rightarrow> state" where
  "remove_quiet p st = snd (unlink p (logging (''Deleting '' @ quoted p) st))"

text \<open>The post-relocation script, when there is one.\<close>

definition main_post_relocate :: "config \<Rightarrow> args \<Rightarrow> world \<Rightarrow> string \<Rightarrow> state \<Rightarrow> unit res" where
  "main_post_relocate cfg args w destination st =
     (let post_relocate_script = path_join destination ''post-relocate-setup.sh''
      in if exists (files st) post_relocate_script then
           (case relocate_file (SDKPATH cfg) destination post_relocate_script st of
              (Inl e, st1) \<Rightarrow> (Inl e, st1)
            | (Inr _, st1) \<Rightarrow>
                (case (if \<not> PLATFORM_IS_WINDOWS cfg
                       then run_command w
                              [''/bin/sh'', post_relocate_script, destination, SDKPATH cfg] st1
                       else (Inr (), st1)) of
                   (Inl e, st2) \<Rightarrow> (Inl e, st2)
                 | (Inr _, st2) \<Rightarrow>
                     if \<not> save_scripts args then unlink post_relocate_script st2
                     else (Inr (), st2)))
         else (Inr (), st))"

text \<open>What \<^verbatim>\<open>main\<close> does once \<^verbatim>\<open>env_setup_script\<close> has its value.\<close>

definition main_finish ::
  "config \<Rightarrow> args \<Rightarrow> world \<Rightarrow> string \<Rightarrow> string \<Rightarrow> state \<Rightarrow> (exc + int) \<times> state" where
  "main_finish cfg args w destination env_setup_script st =
     (case (if \<not> PLATFORM_IS_WINDOWS cfg
            then run_script w (post_install_script cfg args w destination env_setup_script) st
            else (Inr (), st)) of
        (Inl e, st1) \<Rightarrow> (Inl e, st1)
      | (Inr _, st1) \<Rightarrow>
          (let st2 = (if \<not> save_scripts args
                      then fold (\<lambda>s. remove_quiet (path_join (dirname env_setup_script) s))
                             [''relocate_sdk.py'', ''relocate_sdk.sh''] st1
                      else st1)
           in case main_post_relocate cfg args w destination st2 of
                (Inl e, st3) \<Rightarrow> (Inl e, st3)
              | (Inr _, st3) \<Rightarrow>
                  (let st4 = print ''Each time you wish to use the SDK in a new shell session, you need to source the environment setup script e.g.''
                               (print ''SDK has been successfully set up and is ready to be used.'' st3)
                   in (Inr 0,
                       fold (\<lambda>script. print ((if PLATFORM_IS_WINDOWS cfg then '' $ call '' else '' $ . '')
                                               @ script))
                         (environment_setup_scripts destination (files st4)) st4))))"

text \<open>
  The relocation of the environment setup scripts and the choice of
  \<^verbatim>\<open>env_setup_script\<close>. The variable is assigned only when \<^verbatim>\<open>real_env_setup_script\<close> is
  true, that is, neither \<^verbatim>\<open>None\<close> nor empty; reading it unassigned raises
  \<^verbatim>\<open>UnboundLocalError\<close>, a \<^verbatim>\<open>NameError\<close>.
\<close>

definition main_setup ::
  "config \<Rightarrow> args \<Rightarrow> world \<Rightarrow> string \<Rightarrow> state \<Rightarrow> (exc + int) \<times> state" where
  "main_setup cfg args w destination st =
     (let st1 = print ''Setting it up...'' st
      in case relocate_scripts (SDKPATH cfg) destination
                (environment_setup_scripts destination (files st1)) None st1 of
           (Inl e, st2) \<Rightarrow> (Inl e, st2)
         | (Inr real_env_setup_script, st2) \<Rightarrow>
             (case (case real_env_setup_script of
                      None \<Rightarrow> None
                    | Some s \<Rightarrow> if s \<noteq> [] then Some s else None) of
                None \<Rightarrow> (Inl (UnboundLocalError ''env_setup_script''), st2)
              | Some env_setup_script \<Rightarrow>
                  main_finish cfg args w destination env_setup_script
                    (logging (''Environment setup script is '' @ quoted env_setup_script) st2)))"

text \<open>\<^verbatim>\<open>main()\<close>: its result is the exception that leaves it or the exit status it
  returns.\<close>

definition main :: "config \<Rightarrow> args \<Rightarrow> world \<Rightarrow> state \<Rightarrow> (exc + int) \<times> state" where
  "main cfg args w st =
     (case main_prepare cfg args w st of
        (Raise e, st1) \<Rightarrow> (Inl e, st1)
      | (Return c, st1) \<Rightarrow> (Inr c, st1)
      | (Next (extract_exclude, destination), st1) \<Rightarrow>
          if length destination > 2048
          then (Inr 1, print ''Error: The target directory path is too long!!!'' st1)
          else if list_ex isspace destination
          then (Inr 1,
                print (''The target directory path ('' @ destination
                       @ '') contains whitespace. Abort!'') st1)
          else
            (let (proceed, st2) = main_confirm cfg args destination st1
             in if \<not> proceed then (Inr 1, print ''Installation aborted!'' st2)
                else (case main_extract cfg args w extract_exclude destination st2 of
                        (Raise e, st3) \<Rightarrow> (Inl e, st3)
                      | (Return c, st3) \<Rightarrow> (Inr c, st3)
                      | (Next _, st3) \<Rightarrow> main_setup cfg args w destination st3)))"

subsection \<open>Notions used to state the claims\<close>


text \<open>The members whose extraction was started, as the messages \<^verbatim>\<open>Extracting '...'\<close> that
  \<^verbatim>\<open>extract_file\<close> hands to the log, in order.\<close>

definition extracted :: "state \<Rightarrow> string list" where
  "extracted st = filter (prefix ''Extracting '') (log st)"

text \<open>All that was written to standard output, as one string; during the extraction only
  the progress dots are written.\<close>

definition ticks :: "state \<Rightarrow> string" where
  "ticks st = concat (stdout st)"

text \<open>The sum of the sizes of the members that are not excluded.\<close>

definition extracted_bytes :: "string set \<Rightarrow> tarinfo list \<Rightarrow> int" where
  "extracted_bytes X tf = (\<Sum>f \<leftarrow> filter (\<lambda>f. \<not> excluded X f) tf. int (f_size f))"

text \<open>A path holds a regular file whose text contains the marker of the canonical
  environment setup script.\<close>

definition has_marker :: "fs \<Rightarrow> string \<Rightarrow> bool" where
  "has_marker t p =
     (case map_of t p of
        Some (File content) \<Rightarrow> str_contains content ''OECORE_NATIVE_SYSROOT=''
      | _ \<Rightarrow> False)"

text \<open>The last of the given scripts that has the marker.\<close>

definition selected :: "fs \<Rightarrow> string list \<Rightarrow> string option" where
  "selected t scripts =
     (case filter (has_marker t) scripts of [] \<Rightarrow> None | xs \<Rightarrow> Some (last xs))"

text \<open>Version strings made of digits and dots, such as \<^verbatim>\<open>3.10\<close> or \<^verbatim>\<open>5.15.0\<close>.\<close>

definition dotted_numeric :: "string \<Rightarrow> bool" where
  "dotted_numeric s = (s \<noteq> [] \<and> (\<forall>c \<in> set s. isdigit c \<or> c = CHR ''.''))"

subsection \<open>Example inputs\<close>

text \<open>A run that starts with an empty file system, nothing to read and nothing
  written.\<close>

definition st0 :: state where
  "st0 = \<lparr>files = [], readonly = [], stdin = [], stdout = [], log = [],
          current_size = 0, printed_checkpoints = 0\<rparr>"

text \<open>A destination in which \<^verbatim>\<open>bin\<close> is a symbolic link to a file elsewhere and \<^verbatim>\<open>lib\<close> is a
  directory, and three archive members.\<close>

definition ex_files :: fs where
  "ex_files = [(''/opt/sdk/bin'', Link ''/etc/passwd''), (''/etc/passwd'', File ''root''),
               (''/opt/sdk/lib'', Dir)]"

definition ex_state :: state where
  "ex_state = st0\<lparr>files := ex_files\<rparr>"

definition ex_bin :: tarinfo where
  "ex_bin = \<lparr>f_name = ''bin'', f_size = 3, f_kind = Regular ''SDK''\<rparr>"

definition ex_lib :: tarinfo where
  "ex_lib = \<lparr>f_name = ''lib'', f_size = 0, f_kind = Symlink ''/tmp''\<rparr>"


text \<open>A member of 12,800,000 bytes, half of \<^verbatim>\<open>CHECKPOINT\<close>.\<close>

definition ex_chunk :: "string \<Rightarrow> tarinfo" where
  "ex_chunk n = \<lparr>f_name = n, f_size = 12800000, f_kind = Regular []\<rparr>"

text \<open>An installed script that mentions the build-time path.\<close>

definition ex_script :: state where
  "ex_script = st0\<lparr>files := [(''/opt/sdk/v2/environment-setup-x'',
                                  File (''export PATH=/opt/sdk/bin'' @ [CHR 0x0A]))]\<rparr>"

text \<open>An installer for an x86-64 Linux host, its command line and its surroundings; the
  archive holds a custom script without the marker and the canonical script.\<close>

definition ex_cfg :: config where
  "ex_cfg = \<lparr>SDK_TITLE = ''Poky SDK'', SDK_VERSION = ''5.0'', SDK_ARCH = ''x86_64'',
             SDK_EXTENSIBLE = False, SDKEXTPATH_subst = ''~/poky_sdk'',
             SDKPATH_subst = ''/opt/poky/5.0'', SDK_GCC_VER = [], SDK_EXT_TYPE = [],
             OLDEST_KERNEL = ''5.15'', REAL_MULTIMACH_TARGET_SYS = ''cortexa57-poky-linux'',
             PLATFORM_IS_WINDOWS = False\<rparr>"

definition ex_args :: args where
  "ex_args = \<lparr>yes = True, dir = Some ''/opt/sdk'', save_scripts = False, relocate = True,
              debug = 0, list_files = False, prepare_buildsystem = True, publish = False\<rparr>"

definition ex_env :: tarinfo where
  "ex_env = \<lparr>f_name = ''environment-setup-cortexa57-poky-linux'', f_size = 52,
             f_kind = Regular (''export OECORE_NATIVE_SYSROOT=/opt/poky/5.0/sysroots'' @ [CHR 0x0A])\<rparr>"

definition ex_decoy :: tarinfo where
  "ex_decoy = \<lparr>f_name = ''environment-setup-custom'', f_size = 9,
               f_kind = Regular (''# custom'' @ [CHR 0x0A])\<rparr>"

definition ex_world :: world where
  "ex_world = \<lparr>uname_r = ''6.1.0'' @ [CHR 0x0A], machine = ''x86_64'',
               gcc_version = Inr (Some ''12.2''), sort_program = sort_V,
               realpath = (\<lambda>p. p), mktemp = ''/tmp/tmpk3v9x'',
               sh = (\<lambda>command t. (t, 0)),
               pre_install_command = [], post_install_command = [],
               sdk_tar = [ex_decoy, ex_env]\<rparr>"



text \<open>Destinations after the extraction: the marker in the script that sorts last, in
  the script that sorts first, and in no script.\<close>

definition ex_installed :: state where
  "ex_installed =
     st0\<lparr>files :=
       [(''/opt/sdk'', Dir),
        (''/opt/sdk/environment-setup-b'',
         File (''export OECORE_NATIVE_SYSROOT=/opt/poky/5.0/sysroots'' @ [CHR 0x0A])),
        (''/opt/sdk/environment-setup-a'', File (''# custom'' @ [CHR 0x0A]))]\<rparr>"

definition ex_installed_first :: state where
  "ex_installed_first =
     st0\<lparr>files :=
       [(''/opt/sdk'', Dir),
        (''/opt/sdk/environment-setup-b'', File (''# custom'' @ [CHR 0x0A])),
        (''/opt/sdk/environment-setup-a'',
         File (''export OECORE_NATIVE_SYSROOT=/opt/poky/5.0/sysroots'' @ [CHR 0x0A]))]\<rparr>"

definition ex_installed_decoy :: state where
  "ex_installed_decoy =
     st0\<lparr>files :=
       [(''/opt/sdk'', Dir),
        (''/opt/sdk/environment-setup-a'', File (''# custom'' @ [CHR 0x0A]))]\<rparr>"

section \<open>Facts about the model\<close>

subsection \<open>Facts about the string operations\<close>


lemma isspace_lower_char [simp]: "isspace (lower_char c) = isspace c"
proof -
  have "of_char (char_of (of_char c + 32 :: nat)) = (of_char c + 32 :: nat)"
    if "(of_char c :: nat) \<le> 222"
    using that by simp
  then show ?thesis
    by (auto simp: isspace_def lower_char_def Let_def)
qed

lemma lower_char_eq_y: "lower_char c = CHR ''y'' \<longleftrightarrow> c = CHR ''y'' \<or> c = CHR ''Y''"
proof
  assume h: "lower_char c = CHR ''y''"
  show "c = CHR ''y'' \<or> c = CHR ''Y''"
  proof (cases "lower_char c = c")
    case True
    with h show ?thesis by simp
  next
    case False
    then have "lower_char c = char_of (of_char c + 32 :: nat)" and "(of_char c :: nat) \<le> 222"
      by (auto simp: lower_char_def Let_def split: if_splits)
    with h have "(of_char (char_of (of_char c + 32 :: nat)) :: nat) = of_char (CHR ''y'')"
      by simp
    with \<open>(of_char c :: nat) \<le> 222\<close> have "(of_char c :: nat) = of_char (CHR ''Y'')"
      by simp
    then have "c = CHR ''Y''"
      by (simp only: of_char_eq_iff)
    then show ?thesis by simp
  qed
next
  have "lower_char (CHR ''y'') = CHR ''y''" and "lower_char (CHR ''Y'') = CHR ''y''"
    by code_simp+
  moreover assume "c = CHR ''y'' \<or> c = CHR ''Y''"
  ultimately show "lower_char c = CHR ''y''"
    by auto
qed

lemma strip_eq_singleton:
  "strip s = [x] \<longleftrightarrow>
     (\<exists>l r. s = l @ [x] @ r \<and> (\<forall>c \<in> set l. isspace c) \<and> (\<forall>c \<in> set r. isspace c) \<and> \<not> isspace x)"
proof
  assume h: "strip s = [x]"
  define l where "l = takeWhile isspace s"
  define m where "m = dropWhile isspace s"
  define r where "r = rev (takeWhile isspace (rev m))"
  have s: "s = l @ m" by (simp add: l_def m_def)
  have "rev m = takeWhile isspace (rev m) @ dropWhile isspace (rev m)" by simp
  then have "m = rev (dropWhile isspace (rev m)) @ r"
    unfolding r_def by (metis rev_append rev_rev_ident)
  with h have m: "m = [x] @ r" by (simp add: strip_def rstrip_def m_def)
  have "\<forall>c \<in> set l. isspace c" unfolding l_def by (auto dest: set_takeWhileD)
  moreover have "\<forall>c \<in> set r. isspace c" unfolding r_def by (auto dest: set_takeWhileD)
  moreover have "\<not> isspace x"
    using m unfolding m_def by (metis append_Cons hd_dropWhile list.sel(1) list.simps(3))
  ultimately show "\<exists>l r. s = l @ [x] @ r \<and> (\<forall>c \<in> set l. isspace c) \<and> (\<forall>c \<in> set r. isspace c) \<and> \<not> isspace x"
    using s m by auto
next
  assume "\<exists>l r. s = l @ [x] @ r \<and> (\<forall>c \<in> set l. isspace c) \<and> (\<forall>c \<in> set r. isspace c) \<and> \<not> isspace x"
  then obtain l r where s: "s = l @ [x] @ r" and l: "\<forall>c \<in> set l. isspace c"
    and r: "\<forall>c \<in> set r. isspace c" and x: "\<not> isspace x"
    by blast
  from l x have "dropWhile isspace s = x # r"
    by (simp add: s dropWhile_append)
  moreover from r x have "dropWhile isspace (rev r @ [x]) = [x]"
    by (simp add: dropWhile_append)
  ultimately show "strip s = [x]"
    by (simp add: strip_def rstrip_def)
qed

lemma strip_lower_eq_y:
  "strip (lower s) = ''y'' \<longleftrightarrow>
     (\<exists>l c r. s = l @ [c] @ r \<and> (\<forall>x \<in> set l. isspace x) \<and> (\<forall>x \<in> set r. isspace x)
        \<and> (c = CHR ''y'' \<or> c = CHR ''Y''))"
  (is "?L \<longleftrightarrow> ?R")
proof
  assume ?L
  then obtain l' r' where e: "map lower_char s = l' @ [CHR ''y''] @ r'"
    and l': "\<forall>x \<in> set l'. isspace x" and r': "\<forall>x \<in> set r'. isspace x"
    unfolding strip_eq_singleton lower_def by blast
  from e obtain l t where s1: "s = l @ t" and l: "map lower_char l = l'"
    and t: "map lower_char t = [CHR ''y''] @ r'"
    by (auto simp: map_eq_append_conv)
  from t obtain c r where t2: "t = c # r" and c: "lower_char c = CHR ''y''" and r: "map lower_char r = r'"
    by (auto simp: map_eq_Cons_conv)
  from l l' have "\<forall>x \<in> set l. isspace x" by auto
  moreover from r r' have "\<forall>x \<in> set r. isspace x" by auto
  ultimately show ?R
    using s1 t2 c by (auto simp: lower_char_eq_y)
next
  assume ?R
  then obtain l c r where s: "s = l @ [c] @ r" and l: "\<forall>x \<in> set l. isspace x"
    and r: "\<forall>x \<in> set r. isspace x" and c: "lower_char c = CHR ''y''"
    by (auto simp: lower_char_eq_y)
  have ny: "\<not> isspace (CHR ''y'')" by (simp add: isspace_def)
  have "map lower_char s = map lower_char l @ [CHR ''y''] @ map lower_char r"
    using s c by simp
  moreover have "\<forall>x \<in> set (map lower_char l). isspace x" using l by simp
  moreover have "\<forall>x \<in> set (map lower_char r). isspace x" using r by simp
  ultimately show ?L
    unfolding strip_eq_singleton lower_def using ny by blast
qed

lemma prompt_bool_eof: "stdin st = [] \<Longrightarrow> fst (prompt_bool p d st) = d"
  by (simp add: prompt_bool_def input_def Let_def)

lemma prompt_bool_line:
  "stdin st = l # ls \<Longrightarrow>
   fst (prompt_bool p d st) = (if l = [] then d else strip (lower l) = ''y'')"
  by (simp add: prompt_bool_def input_def Let_def)

subsection \<open>Facts about the file system and the extraction\<close>

lemma follow_not_link:
  "(\<And>target. map_of t p \<noteq> Some (Link target)) \<Longrightarrow> follow (Suc n) t p = Some p"
  by (auto split: option.splits node.splits)

lemma follow_40:
  "(\<And>target. map_of t p \<noteq> Some (Link target)) \<Longrightarrow> follow 40 t p = Some p"
  using follow_not_link [of t p 39] by simp

lemma follow_40_absent [simp]: "map_of t p = None \<Longrightarrow> follow 40 t p = Some p"
  by (simp add: follow_40)

lemma follow_40_File [simp]: "map_of t p = Some (File text) \<Longrightarrow> follow 40 t p = Some p"
  by (simp add: follow_40)

lemma follow_40_Dir [simp]: "map_of t p = Some Dir \<Longrightarrow> follow 40 t p = Some p"
  by (simp add: follow_40)

lemma follow_40_Special [simp]: "map_of t p = Some Special \<Longrightarrow> follow 40 t p = Some p"
  by (simp add: follow_40)

lemma isdir_iff_Dir:
  "\<not> islink t p \<Longrightarrow> isdir t p \<longleftrightarrow> map_of t p = Some Dir"
proof -
  assume "\<not> islink t p"
  then have "follow 40 t p = Some p"
    by (intro follow_40) (auto simp: islink_def)
  then show ?thesis by (simp add: isdir_def)
qed

lemma remove_condition:
  "lexists t p \<and> (islink t p \<or> \<not> isdir t p) \<longleftrightarrow> (\<exists>n. map_of t p = Some n \<and> n \<noteq> Dir)"
proof (cases "islink t p")
  case True
  then show ?thesis by (auto simp: islink_def lexists_def split: option.splits node.splits)
next
  case False
  then show ?thesis by (auto simp: isdir_iff_Dir lexists_def)
qed

lemma extract_file_remove_unfold:
  "extract_file_remove destination f st =
     (if \<exists>n. map_of (files st) (path_join destination (f_name f)) = Some n \<and> n \<noteq> Dir
      then unlink (path_join destination (f_name f))
             (logging (''Removing '' @ quoted (path_join destination (f_name f))) st)
      else (Inr (), st))"
  unfolding extract_file_remove_def Let_def remove_condition ..

lemma files_logging [simp]: "files (logging s st) = files st"
  and readonly_logging [simp]: "readonly (logging s st) = readonly st"
  by (simp_all add: logging_def)



lemma tar_extract_on_Dir:
  assumes "map_of (files st) (path_join destination (f_name f)) = Some Dir"
  shows "files (snd (tar_extract f destination st)) = files st"
  using assms
  by (cases "f_kind f")
    (simp_all add: tar_extract_def write_file_def lexists_def unlink_def isdir_def)

lemma files_extract_file_progress [simp]:
  "files (extract_file_progress f st) = files st"
  by (simp add: extract_file_progress_def Let_def)

lemma frame_refl [simp]: "\<exists>t. st = st\<lparr>files := t\<rparr>"
  by (rule exI [of _ "files st"]) simp

lemma frame_update [simp]: "\<exists>t. st\<lparr>files := u\<rparr> = st\<lparr>files := t\<rparr>"
  by (rule exI [of _ u]) simp

lemma unlink_frame: "\<exists>t. snd (unlink p st) = st\<lparr>files := t\<rparr>"
  by (auto simp: unlink_def split: option.splits node.splits)

lemma write_file_frame: "\<exists>t. snd (write_file p content st) = st\<lparr>files := t\<rparr>"
  by (auto simp: write_file_def split: option.splits node.splits)

lemma tar_extract_frame: "\<exists>t. snd (tar_extract f destination st) = st\<lparr>files := t\<rparr>"
proof (cases "f_kind f")
  case (Regular content)
  then show ?thesis using write_file_frame by (simp add: tar_extract_def)
next
  case Directory
  then show ?thesis
    by (auto simp: tar_extract_def Let_def)
next
  case (Symlink target)
  define p where "p = path_join destination (f_name f)"
  obtain t where t: "snd (unlink p st) = st\<lparr>files := t\<rparr>"
    using unlink_frame by blast
  show ?thesis
    using Symlink t unfolding tar_extract_def Let_def p_def [symmetric]
    by (cases "unlink p st"; cases "fst (unlink p st)") (auto split: if_splits)
next
  case Other
  then show ?thesis
    by (auto simp: tar_extract_def Let_def)
qed

lemma not_Extracting_Removing [simp]: "\<not> prefix ''Extracting '' (''Removing '' @ x)"
  by simp

lemma extract_file_remove_fields:
  "stdout (snd (extract_file_remove destination f st)) = stdout st"
  "current_size (snd (extract_file_remove destination f st)) = current_size st"
  "printed_checkpoints (snd (extract_file_remove destination f st)) = printed_checkpoints st"
  "extracted (snd (extract_file_remove destination f st)) = extracted st"
proof -
  define p where "p = path_join destination (f_name f)"
  define st0 where "st0 = logging (''Removing '' @ quoted p) st"
  obtain t where t: "snd (unlink p st0) = st0\<lparr>files := t\<rparr>"
    using unlink_frame by blast
  have "snd (extract_file_remove destination f st) = st
        \<or> snd (extract_file_remove destination f st) = st0\<lparr>files := t\<rparr>"
    using t by (simp add: extract_file_remove_def Let_def p_def st0_def)
  moreover have "extracted (st0\<lparr>files := t\<rparr>) = extracted st"
    by (simp add: extracted_def st0_def logging_def)
  moreover have "stdout (st0\<lparr>files := t\<rparr>) = stdout st"
    "current_size (st0\<lparr>files := t\<rparr>) = current_size st"
    "printed_checkpoints (st0\<lparr>files := t\<rparr>) = printed_checkpoints st"
    by (simp_all add: st0_def logging_def)
  ultimately show
    "stdout (snd (extract_file_remove destination f st)) = stdout st"
    "current_size (snd (extract_file_remove destination f st)) = current_size st"
    "printed_checkpoints (snd (extract_file_remove destination f st)) = printed_checkpoints st"
    "extracted (snd (extract_file_remove destination f st)) = extracted st"
    by auto
qed

lemma tar_extract_fields:
  "stdout (snd (tar_extract f destination st)) = stdout st"
  "current_size (snd (tar_extract f destination st)) = current_size st"
  "printed_checkpoints (snd (tar_extract f destination st)) = printed_checkpoints st"
  "log (snd (tar_extract f destination st)) = log st"
proof -
  obtain t where "snd (tar_extract f destination st) = st\<lparr>files := t\<rparr>"
    using tar_extract_frame by blast
  then show "stdout (snd (tar_extract f destination st)) = stdout st"
    "current_size (snd (tar_extract f destination st)) = current_size st"
    "printed_checkpoints (snd (tar_extract f destination st)) = printed_checkpoints st"
    "log (snd (tar_extract f destination st)) = log st"
    by simp_all
qed

lemma extract_file_Inr:
  assumes "extract_file destination f st = (Inr u, st')"
  shows "\<exists>st2. st' = extract_file_progress f st2 \<and> stdout st2 = stdout st \<and>
           current_size st2 = current_size st \<and>
           printed_checkpoints st2 = printed_checkpoints st \<and>
           extracted st2 = extracted st @ [''Extracting '' @ quoted (path_join destination (f_name f))]"
proof -
  define st1 where "st1 = snd (extract_file_remove destination f st)"
  define st1' where "st1' = logging (''Extracting '' @ quoted (path_join destination (f_name f))) st1"
  define st2 where "st2 = snd (tar_extract f destination st1')"
  have "st' = extract_file_progress f st2"
    using assms unfolding extract_file_def st2_def st1'_def st1_def
    by (auto split: prod.splits sum.splits)
  moreover have "stdout st2 = stdout st" "current_size st2 = current_size st"
    "printed_checkpoints st2 = printed_checkpoints st"
    unfolding st2_def tar_extract_fields st1'_def
    by (simp_all add: logging_def st1_def extract_file_remove_fields)
  moreover have "extracted st2 = extracted st @ [''Extracting '' @ quoted (path_join destination (f_name f))]"
    using extract_file_remove_fields(4) [of destination f st]
    unfolding st2_def extracted_def tar_extract_fields st1'_def st1_def
    by (simp add: logging_def)
  ultimately show ?thesis by blast
qed

lemma extracted_extract_file_progress [simp]:
  "extracted (extract_file_progress f st) = extracted st"
  by (simp add: extracted_def extract_file_progress_def Let_def)



lemma CHECKPOINT_pos: "0 < CHECKPOINT"
  by (simp add: CHECKPOINT_def)

lemma extract_file_progress_ticks:
  assumes "printed_checkpoints st = current_size st div CHECKPOINT"
  shows "current_size (extract_file_progress f st) = current_size st + int (f_size f)"
    and "printed_checkpoints (extract_file_progress f st)
           = current_size (extract_file_progress f st) div CHECKPOINT"
    and "ticks (extract_file_progress f st)
           = ticks st @ replicate (nat ((current_size st + int (f_size f)) div CHECKPOINT
                                        - current_size st div CHECKPOINT)) CHR ''.''"
  using assms by (simp_all add: extract_file_progress_def Let_def ticks_def)

lemma extract_all_ticks:
  assumes "extract_all X d tf st = (Inr u, st')"
    and "printed_checkpoints st = current_size st div CHECKPOINT"
  shows "current_size st' = current_size st + extracted_bytes X tf \<and>
         printed_checkpoints st' = current_size st' div CHECKPOINT \<and>
         ticks st' = ticks st @ replicate (nat (current_size st' div CHECKPOINT
                                               - current_size st div CHECKPOINT)) CHR ''.''"
  using assms
proof (induction tf arbitrary: st)
  case Nil
  then show ?case by (simp add: extracted_bytes_def)
next
  case (Cons f tf)
  show ?case
  proof (cases "excluded X f")
    case True
    with Cons show ?thesis by (simp add: extracted_bytes_def)
  next
    case False
    with Cons.prems obtain u1 st1 where 1: "extract_file d f st = (Inr u1, st1)"
      and 2: "extract_all X d tf st1 = (Inr u, st')"
      by (auto split: prod.splits sum.splits)
    from extract_file_Inr [OF 1] obtain st2 where st1: "st1 = extract_file_progress f st2"
      and o: "stdout st2 = stdout st" and c: "current_size st2 = current_size st"
      and p: "printed_checkpoints st2 = printed_checkpoints st"
      by blast
    have inv2: "printed_checkpoints st2 = current_size st2 div CHECKPOINT"
      using Cons.prems(2) c p by simp
    have t2: "ticks st2 = ticks st" using o by (simp add: ticks_def)
    note step = extract_file_progress_ticks [OF inv2, of f, folded st1]
    from Cons.IH [OF 2 step(2)]
    have cs: "current_size st' = current_size st1 + extracted_bytes X tf"
      and pr: "printed_checkpoints st' = current_size st' div CHECKPOINT"
      and tk: "ticks st' = ticks st1 @ replicate (nat (current_size st' div CHECKPOINT
                 - current_size st1 div CHECKPOINT)) CHR ''.''"
      by simp_all
    have ge: "0 \<le> extracted_bytes X tf"
      unfolding extracted_bytes_def by (rule sum_list_nonneg) auto
    have le1: "current_size st div CHECKPOINT \<le> current_size st1 div CHECKPOINT"
      using step(1) c CHECKPOINT_pos by (intro zdiv_mono1) simp_all
    have le2: "current_size st1 div CHECKPOINT \<le> current_size st' div CHECKPOINT"
      using cs ge CHECKPOINT_pos by (intro zdiv_mono1) simp_all
    have "current_size st' = current_size st + extracted_bytes X (f # tf)"
      using cs step(1) c False by (simp add: extracted_bytes_def)
    moreover have "ticks st' = ticks st @ replicate (nat (current_size st' div CHECKPOINT
                                               - current_size st div CHECKPOINT)) CHR ''.''"
    proof -
      have "nat (current_size st' div CHECKPOINT - current_size st div CHECKPOINT)
            = nat (current_size st1 div CHECKPOINT - current_size st div CHECKPOINT)
              + nat (current_size st' div CHECKPOINT - current_size st1 div CHECKPOINT)"
        using le1 le2 by linarith
      then show ?thesis
        using tk step(3) step(1) c t2 by (simp add: replicate_add)
    qed
    ultimately show ?thesis using pr by simp
  qed
qed

text \<open>Without the removal, the extraction alone writes through the link of the example
  to the file it points to.\<close>

lemma tar_extract_follows_link:
  "map_of (files (snd (tar_extract ex_bin ''/opt/sdk'' ex_state))) ''/etc/passwd'' = Some (File ''SDK'')"
  by code_simp

subsection \<open>Facts about relocation\<close>

lemma contains_Nil [simp]: "str_contains s []"
  by (cases s) simp_all




lemma concat_readlines [simp]: "concat (readlines s) = s"
  by (induction s) (auto split: list.splits)


lemma snd_relocate_lines:
  "snd (relocate_lines old new ls) = list_ex (\<lambda>l. str_contains l ''OECORE_NATIVE_SYSROOT='') ls"
  by (induction ls) (auto split: prod.splits)



lemma tmp_neq [simp]: "name @ ''.tmp'' \<noteq> name" "name \<noteq> name @ ''.tmp''"
  by (auto dest: arg_cong [where f = length])

lemma delete_update_absent:
  "map_of t k = None \<Longrightarrow> AList.delete k (AList.update k v t) = t"
  by (simp add: delete_update_same map_of_eq_None_iff)

text \<open>The effect of relocating a regular file whose temporary name is free.\<close>

lemma relocate_file_File:
  assumes f: "map_of (files st) name = Some (File content)"
    and t: "map_of (files st) (name @ ''.tmp'') = None"
    and w: "name \<notin> set (readonly st)" "name @ ''.tmp'' \<notin> set (readonly st)"
  shows "relocate_file old new name st =
     (Inr (snd (relocate_lines old new (readlines content))),
      (logging (''Relocating '' @ quoted name) st)
        \<lparr>files := AList.update name (File (fst (relocate_lines old new (readlines content))))
                    (files st)\<rparr>)"
proof -
  define tmp where "tmp = name @ ''.tmp''"
  define out where "out = fst (relocate_lines old new (readlines content))"
  define st1 where "st1 = st\<lparr>files := AList.update tmp (File []) (files st)\<rparr>"
  let ?st2 = "logging (''Relocating '' @ quoted name) st1"
  define st3 where "st3 = ?st2\<lparr>files := AList.update tmp (File out) (files ?st2)\<rparr>"
  have ne: "tmp \<noteq> name" "name \<noteq> tmp" by (simp_all add: tmp_def)
  have r0: "read_file (files st) name = Inr content"
    using f by (simp add: read_file_def)
  have w1: "write_file tmp [] st = (Inr (), st1)"
    using t w by (simp add: write_file_def st1_def tmp_def)
  have m2: "map_of (files ?st2) name = Some (File content)" "map_of (files ?st2) tmp = Some (File [])"
    using f ne by (simp_all add: st1_def update_conv')
  have r2: "read_file (files ?st2) name = Inr content"
    using m2 by (simp add: read_file_def)
  have w3: "write_file tmp out ?st2 = (Inr (), st3)"
    using m2 w by (simp add: write_file_def st3_def st1_def tmp_def)
  have m3: "map_of (files st3) name = Some (File content)" "map_of (files st3) tmp = Some (File out)"
    using m2 ne by (simp_all add: st3_def update_conv')
  have nd: "\<not> isdir (files st3) name"
    using m3 by (simp add: isdir_def)
  have fl: "AList.delete tmp (files st3) = files st"
    using t by (simp add: st3_def st1_def tmp_def delete_update_absent)
  have mv: "move tmp name st3 =
      (Inr (), (logging (''Relocating '' @ quoted name) st)\<lparr>files := AList.update name (File out) (files st)\<rparr>)"
    using m3 nd w ne fl
    by (simp add: move_def tmp_def [symmetric]) (simp add: st3_def st1_def logging_def)
  show ?thesis
    using r0 w1 r2 w3 mv
    unfolding relocate_file_def Let_def tmp_def [symmetric]
    by (simp add: split_beta out_def)
qed

text \<open>The two relocations of the example, into a destination below the build-time
  path.\<close>

lemma relocate_twice_values:
  "files (snd (relocate_file ''/opt/sdk'' ''/opt/sdk/v2''
                      ''/opt/sdk/v2/environment-setup-x'' ex_script))
   = [(''/opt/sdk/v2/environment-setup-x'', File (''export PATH=/opt/sdk/v2/bin'' @ [CHR 0x0A]))]"
  "files (snd (relocate_file ''/opt/sdk'' ''/opt/sdk/v2'' ''/opt/sdk/v2/environment-setup-x''
                 (snd (relocate_file ''/opt/sdk'' ''/opt/sdk/v2''
                         ''/opt/sdk/v2/environment-setup-x'' ex_script))))
   = [(''/opt/sdk/v2/environment-setup-x'', File (''export PATH=/opt/sdk/v2/v2/bin'' @ [CHR 0x0A]))]"
  by code_simp+

lemma prefix_before_separator:
  assumes "x \<notin> set m" and "prefix m (u @ x # v)"
  shows "prefix m u"
proof -
  from assms(2) have "prefix m u \<or> (\<exists>w. m = u @ w \<and> prefix w (x # v))"
    by (simp add: prefix_append)
  then show ?thesis
  proof
    assume "prefix m u"
    then show ?thesis .
  next
    assume "\<exists>w. m = u @ w \<and> prefix w (x # v)"
    then obtain w where w: "m = u @ w" "prefix w (x # v)" by blast
    show ?thesis
    proof (cases w)
      case Nil
      with w show ?thesis by simp
    next
      case (Cons y w')
      with w assms(1) show ?thesis by simp
    qed
  qed
qed

lemma readlines_eq_Nil [simp]: "readlines s = [] \<longleftrightarrow> s = []"
  by (cases s) (auto split: list.splits)

lemma readlines_first_newline:
  "readlines s = l # l2 # ls \<Longrightarrow> \<exists>l'. l = l' @ [CHR 0x0A]"
proof (induction s arbitrary: l)
  case Nil
  then show ?case by simp
next
  case (Cons c s)
  show ?case
  proof (cases "c = CHR 0x0A")
    case True
    with Cons.prems show ?thesis by auto
  next
    case False
    with Cons.prems obtain k where k: "readlines s = k # l2 # ls" and l: "l = c # k"
      by (auto split: list.splits)
    from Cons.IH [OF k] obtain k' where "k = k' @ [CHR 0x0A]" ..
    with l show ?thesis by auto
  qed
qed

lemma lines_contain:
  assumes m: "m \<noteq> []" "CHR 0x0A \<notin> set m"
  shows "list_ex (\<lambda>l. str_contains l m) (readlines s) \<longleftrightarrow> str_contains s m"
proof (induction s)
  case Nil
  with m show ?case by simp
next
  case (Cons c s)
  show ?case
  proof (cases "c = CHR 0x0A")
    case True
    have "\<not> prefix m (CHR 0x0A # x)" for x
      using m by (cases m) auto
    with True Cons m show ?thesis by simp
  next
    case False
    show ?thesis
    proof (cases "readlines s")
      case Nil
      with False show ?thesis by simp
    next
      case (Cons l ls)
      have s: "s = l @ concat ls"
        using concat_readlines [of s] Cons by simp
      have "prefix m (c # s) \<longleftrightarrow> prefix m (c # l)" if "\<not> str_contains s m"
      proof (cases ls)
        case Nil
        with s show ?thesis by simp
      next
        case (Cons l2 ls')
        with \<open>readlines s = l # ls\<close> obtain l' where l': "l = l' @ [CHR 0x0A]"
          using readlines_first_newline by blast
        show ?thesis
        proof
          assume "prefix m (c # s)"
          then have "prefix m ((c # l') @ CHR 0x0A # concat ls)"
            using s l' by simp
          then have "prefix m (c # l')"
            using m(2) by (rule prefix_before_separator [rotated])
          then show "prefix m (c # l)"
            unfolding l' by (metis append_Cons prefix_order.trans prefixI)
        next
          assume "prefix m (c # l)"
          then show "prefix m (c # s)"
            unfolding s by (metis append_Cons prefix_order.trans prefixI)
        qed
      qed
      moreover have "str_contains s m \<longleftrightarrow> str_contains l m \<or> list_ex (\<lambda>l. str_contains l m) ls"
        using Cons.IH \<open>readlines s = l # ls\<close> by simp
      ultimately show ?thesis
        using False \<open>readlines s = l # ls\<close> by auto
    qed
  qed
qed

lemma marker_in_lines:
  "snd (relocate_lines old new (readlines content)) = str_contains content ''OECORE_NATIVE_SYSROOT=''"
  unfolding snd_relocate_lines by (rule lines_contain) simp_all

subsection \<open>Facts about the version order\<close>

lemma isdigit_not_linebreak: "isdigit c \<or> c = CHR ''.'' \<Longrightarrow> \<not> linebreak c \<and> c \<noteq> CHR 0x0A \<and> c \<noteq> CHR 0x0D"
  by (auto simp: isdigit_def linebreak_def Let_def)

lemma readlines_line:
  "CHR 0x0A \<notin> set a \<Longrightarrow> readlines (a @ CHR 0x0A # rest) = (a @ [CHR 0x0A]) # readlines rest"
  by (induction a) auto

lemma readlines_last:
  "CHR 0x0A \<notin> set b \<Longrightarrow> b \<noteq> [] \<Longrightarrow> readlines b = [b]"
proof (induction b)
  case Nil
  then show ?case by simp
next
  case (Cons c b)
  then show ?case by (cases "b = []") (auto split: list.splits)
qed

lemma splitlines_line:
  "\<forall>c \<in> set a. \<not> linebreak c \<and> c \<noteq> CHR 0x0D \<Longrightarrow>
   splitlines (a @ CHR 0x0A # rest) = a # splitlines rest"
proof (induction a)
  case Nil
  have "linebreak (CHR 0x0A)" by (simp add: linebreak_def)
  then show ?case by simp
next
  case (Cons c a)
  then show ?case by simp
qed

lemma sort_key_two: "sort_key k [x, y] = (if k x \<le> k y then [x, y] else [y, x])"
  by simp

lemma sort_V_two:
  assumes "CHR 0x0A \<notin> set a" "CHR 0x0A \<notin> set b" "b \<noteq> []"
  shows "sort_V (a @ [CHR 0x0A] @ b) =
     (if (version_key a, a) \<le> (version_key b, b)
      then a @ [CHR 0x0A] @ b @ [CHR 0x0A] else b @ [CHR 0x0A] @ a @ [CHR 0x0A])"
proof -
  have "readlines (a @ [CHR 0x0A] @ b) = [a @ [CHR 0x0A], b]"
    using assms by (simp add: readlines_line readlines_last)
  moreover have "takeWhile (\<lambda>c. c \<noteq> CHR 0x0A) (a @ [CHR 0x0A]) = a"
    using assms(1) by (simp add: takeWhile_append)
  moreover have "takeWhile (\<lambda>c. c \<noteq> CHR 0x0A) b = b"
    using assms(2) by (auto simp: takeWhile_eq_all_conv)
  ultimately have "map (takeWhile (\<lambda>c. c \<noteq> CHR 0x0A)) (readlines (a @ [CHR 0x0A] @ b)) = [a, b]"
    by simp
  then show ?thesis
    unfolding sort_V_def sort_key_two by (simp del: less_eq_prod_simp)
qed

lemma ver_lt_sort_V:
  assumes a: "dotted_numeric a" and b: "dotted_numeric b"
  shows "ver_lt sort_V a b = Inr ((version_key a, a) < (version_key b, b))"
proof (cases "a = b")
  case True
  then show ?thesis by (simp add: ver_lt_def)
next
  case False
  have na: "CHR 0x0A \<notin> set a" "\<forall>c \<in> set a. \<not> linebreak c \<and> c \<noteq> CHR 0x0D"
    using a isdigit_not_linebreak unfolding dotted_numeric_def by blast+
  have nb: "CHR 0x0A \<notin> set b" "\<forall>c \<in> set b. \<not> linebreak c \<and> c \<noteq> CHR 0x0D" "b \<noteq> []"
    using b isdigit_not_linebreak unfolding dotted_numeric_def by blast+
  have "splitlines (a @ CHR 0x0A # b @ [CHR 0x0A]) = a # splitlines (b @ [CHR 0x0A])"
    using na(2) by (rule splitlines_line)
  moreover have "splitlines (b @ CHR 0x0A # a @ [CHR 0x0A]) = b # splitlines (a @ [CHR 0x0A])"
    using nb(2) by (rule splitlines_line)
  moreover note sort_V_two [OF na(1) nb(1) nb(3)]
  ultimately have "splitlines (sort_V (a @ [CHR 0x0A] @ b)) =
        (if (version_key a, a) \<le> (version_key b, b) then a # splitlines (b @ [CHR 0x0A])
         else b # splitlines (a @ [CHR 0x0A]))"
    by (simp del: less_eq_prod_simp)
  then have "ver_lteq sort_V a b = Inr ((version_key a, a) \<le> (version_key b, b))"
    using False by (auto simp: ver_lteq_def)
  moreover have "(version_key a, a) \<le> (version_key b, b) \<longleftrightarrow> (version_key a, a) < (version_key b, b)"
    using False by auto
  ultimately show ?thesis using False by (simp add: ver_lt_def)
qed

subsection \<open>Facts about the choice of the environment setup script\<close>

lemma relocate_scripts_select:
  assumes "distinct ss"
    and "\<forall>s \<in> set ss. \<exists>content. map_of (files st) s = Some (File content)"
    and "\<forall>s \<in> set ss. map_of (files st) (s @ ''.tmp'') = None"
    and "\<forall>s \<in> set ss. s \<notin> set (readonly st) \<and> s @ ''.tmp'' \<notin> set (readonly st)"
  shows "\<exists>st'. relocate_scripts old new ss real st =
           (Inr (case filter (has_marker (files st)) ss of [] \<Rightarrow> real | xs \<Rightarrow> Some (last xs)), st')"
  using assms
proof (induction ss arbitrary: real st)
  case Nil
  then show ?case by simp
next
  case (Cons s ss)
  from Cons.prems(2) obtain content where c: "map_of (files st) s = Some (File content)"
    by auto
  define out where "out = fst (relocate_lines old new (readlines content))"
  define st1 where "st1 = (logging (''Relocating '' @ quoted s) st)
                            \<lparr>files := AList.update s (File out) (files st)\<rparr>"
  have hm: "has_marker (files st) s = str_contains content ''OECORE_NATIVE_SYSROOT=''"
    using c by (simp add: has_marker_def)
  have r: "relocate_file old new s st = (Inr (has_marker (files st) s), st1)"
    using relocate_file_File [OF c, of old new] Cons.prems(3,4)
    by (simp add: st1_def out_def marker_in_lines hm)
  have same: "map_of (files st1) p = map_of (files st) p" if "p \<noteq> s" for p
    using that by (simp add: st1_def update_conv')
  have ne: "s' \<noteq> s" "s' @ ''.tmp'' \<noteq> s" if "s' \<in> set ss" for s'
    using that Cons.prems(1,3) c by auto
  have 1: "distinct ss" using Cons.prems(1) by simp
  have 2: "\<forall>s' \<in> set ss. \<exists>content. map_of (files st1) s' = Some (File content)"
    using Cons.prems(2) ne same by simp
  have 3: "\<forall>s' \<in> set ss. map_of (files st1) (s' @ ''.tmp'') = None"
    using Cons.prems(3) ne same by simp
  have 4: "\<forall>s' \<in> set ss. s' \<notin> set (readonly st1) \<and> s' @ ''.tmp'' \<notin> set (readonly st1)"
    using Cons.prems(4) by (simp add: st1_def)
  have fl: "filter (has_marker (files st1)) ss = filter (has_marker (files st)) ss"
    using ne same by (intro filter_cong) (simp_all add: has_marker_def)
  from Cons.IH [OF 1 2 3 4, of "if has_marker (files st) s then Some s else real"]
  obtain st' where "relocate_scripts old new ss (if has_marker (files st) s then Some s else real) st1 =
     (Inr (case filter (has_marker (files st)) ss of
             [] \<Rightarrow> (if has_marker (files st) s then Some s else real)
           | xs \<Rightarrow> Some (last xs)), st')"
    unfolding fl by blast
  with r show ?case
    by (auto split: list.splits)
qed

lemma is_setup_script_nonempty: "is_setup_script destination p \<Longrightarrow> p \<noteq> []"
  by (auto simp: is_setup_script_def path_join_def Let_def split: if_splits)

lemma set_environment_setup_scripts:
  "set (environment_setup_scripts destination t) = {p \<in> fst ` set t. is_setup_script destination p}"
  by (auto simp: environment_setup_scripts_def)

lemma selected_in_scripts: "selected t scripts = Some s \<Longrightarrow> s \<in> set scripts \<and> has_marker t s"
proof -
  assume h: "selected t scripts = Some s"
  then have "filter (has_marker t) scripts \<noteq> []" and "s = last (filter (has_marker t) scripts)"
    by (auto simp: selected_def split: list.splits)
  then have "s \<in> set (filter (has_marker t) scripts)"
    using last_in_set by blast
  then show ?thesis by simp
qed

lemma sorted_le_last: "sorted xs \<Longrightarrow> x \<in> set xs \<Longrightarrow> x \<le> last xs"
  by (induction xs) auto

lemma files_print [simp]: "files (print s st) = files st"
  and readonly_print [simp]: "readonly (print s st) = readonly st"
  by (simp_all add: print_def)

lemma relocate_scripts_Some:
  "relocate_scripts old new ss real st = (Inr (Some s), st') \<Longrightarrow>
   real = Some s \<or> (s \<in> set ss \<and> (\<exists>sa sb. relocate_file old new s sa = (Inr True, sb)))"
proof (induction ss arbitrary: real st)
  case Nil
  then show ?case by simp
next
  case (Cons x ss)
  from Cons.prems obtain r st1 where 1: "relocate_file old new x st = (Inr r, st1)"
    and 2: "relocate_scripts old new ss (if r then Some x else real) st1 = (Inr (Some s), st')"
    by (auto split: prod.splits sum.splits)
  from Cons.IH [OF 2] show ?case
  proof
    assume "(if r then Some x else real) = Some s"
    then show ?thesis using 1 by (cases r) auto
  next
    assume "s \<in> set ss \<and> (\<exists>sa sb. relocate_file old new s sa = (Inr True, sb))"
    then show ?thesis by auto
  qed
qed

lemma main_setup_None:
  "relocate_scripts (SDKPATH cfg) destination
     (environment_setup_scripts destination (files st)) None (print ''Setting it up...'' st)
     = (Inr None, st') \<Longrightarrow>
   main_setup cfg args w destination st = (Inl (UnboundLocalError ''env_setup_script''), st')"
  by (simp add: main_setup_def Let_def)

lemma main_finish_not_unbound:
  "fst (main_setup cfg args w destination st) = Inr c \<Longrightarrow>
   \<exists>s st'. relocate_scripts (SDKPATH cfg) destination
       (environment_setup_scripts destination (files st)) None (print ''Setting it up...'' st)
       = (Inr (Some s), st')"
  by (auto simp: main_setup_def Let_def split: prod.splits sum.splits option.splits if_splits)

lemma main_setup_relocated:
  assumes "distinct (map fst (files st))"
    and "\<forall>s \<in> set (environment_setup_scripts destination (files st)).
           (\<exists>content. map_of (files st) s = Some (File content)) \<and>
           map_of (files st) (s @ ''.tmp'') = None \<and>
           s \<notin> set (readonly st) \<and> s @ ''.tmp'' \<notin> set (readonly st)"
  shows "\<exists>st'. relocate_scripts (SDKPATH cfg) destination
       (environment_setup_scripts destination (files st)) None (print ''Setting it up...'' st)
       = (Inr (selected (files st) (environment_setup_scripts destination (files st))), st')"
proof -
  define scripts where "scripts = environment_setup_scripts destination (files st)"
  define st0 where "st0 = print ''Setting it up...'' st"
  have d: "distinct scripts"
    using assms(1) unfolding scripts_def environment_setup_scripts_def
    by (simp add: distinct_map_filter)
  have "\<exists>st'. relocate_scripts (SDKPATH cfg) destination scripts None st0 =
           (Inr (case filter (has_marker (files st0)) scripts of [] \<Rightarrow> None | xs \<Rightarrow> Some (last xs)), st')"
    using assms(2) d unfolding scripts_def [symmetric] st0_def
    by (intro relocate_scripts_select) simp_all
  then show ?thesis
    unfolding selected_def st0_def scripts_def by auto
qed

lemma selected_None: "\<forall>s \<in> set scripts. \<not> has_marker t s \<Longrightarrow> selected t scripts = None"
  by (simp add: selected_def filter_False)

subsection \<open>Facts about the first phases of \<^verbatim>\<open>main\<close>\<close>








lemma files_fold_logging [simp]: "files (fold (\<lambda>l. logging (g l)) ls st) = files st"
  by (induction ls arbitrary: st) simp_all



section \<open>The claims\<close>

subsection \<open>C1: what lies at a member's path is removed first\<close>



subsection \<open>C2: relocating twice\<close>




subsection \<open>C3: the members that are extracted\<close>



subsection \<open>C4: a destination that is refused\<close>




subsection \<open>C5: the canonical environment setup script\<close>

text \<open>
  C5. Let the paths of the file table be distinct and let every candidate script be a
  regular file that may be changed and whose temporary name is free. Then the scripts
  are relocated in sorted order, the relocation completes, and the script kept in
  \<^verbatim>\<open>real_env_setup_script\<close> is the last one, in that order, whose text contains the marker
  \<^verbatim>\<open>OECORE_NATIVE_SYSROOT=\<close>; scripts without the marker that sort after it do not count.
  When there is such a script, it is the \<^verbatim>\<open>env_setup_script\<close> that the rest of \<^verbatim>\<open>main\<close> works
  with.
\<close>

theorem select_env_setup_script:
  assumes "distinct (map fst (files st))"
    and "\<forall>s \<in> set (environment_setup_scripts destination (files st)).
           (\<exists>content. map_of (files st) s = Some (File content)) \<and>
           map_of (files st) (s @ ''.tmp'') = None \<and>
           s \<notin> set (readonly st) \<and> s @ ''.tmp'' \<notin> set (readonly st)"
  shows "\<exists>st'.
     sorted (environment_setup_scripts destination (files st)) \<and>
     relocate_scripts (SDKPATH cfg) destination
       (environment_setup_scripts destination (files st)) None (print ''Setting it up...'' st)
       = (Inr (selected (files st) (environment_setup_scripts destination (files st))), st') \<and>
     (\<forall>s. selected (files st) (environment_setup_scripts destination (files st)) = Some s \<longrightarrow>
        has_marker (files st) s \<and>
        (\<forall>s' \<in> set (environment_setup_scripts destination (files st)).
            has_marker (files st) s' \<longrightarrow> s' \<le> s) \<and>
        main_setup cfg args w destination st =
          main_finish cfg args w destination s
            (logging (''Environment setup script is '' @ quoted s) st'))"
proof -
  define scripts where "scripts = environment_setup_scripts destination (files st)"
  define st0 where "st0 = print ''Setting it up...'' st"
  have d: "distinct scripts"
    using assms(1) unfolding scripts_def environment_setup_scripts_def
    by (simp add: distinct_map_filter)
  have so: "sorted scripts"
    unfolding scripts_def environment_setup_scripts_def by simp
  have "\<exists>st'. relocate_scripts (SDKPATH cfg) destination scripts None st0 =
           (Inr (case filter (has_marker (files st0)) scripts of [] \<Rightarrow> None | xs \<Rightarrow> Some (last xs)), st')"
    using assms(2) d unfolding scripts_def [symmetric] st0_def
    by (intro relocate_scripts_select) simp_all
  then obtain st' where r: "relocate_scripts (SDKPATH cfg) destination scripts None st0 =
           (Inr (selected (files st) scripts), st')"
    unfolding selected_def st0_def by auto
  have fin: "main_setup cfg args w destination st =
          main_finish cfg args w destination s
            (logging (''Environment setup script is '' @ quoted s) st')"
    and hm: "has_marker (files st) s"
    and mx: "\<forall>s' \<in> set scripts. has_marker (files st) s' \<longrightarrow> s' \<le> s"
    if sel: "selected (files st) scripts = Some s" for s
  proof -
    from selected_in_scripts [OF sel] have "s \<in> set scripts" and "has_marker (files st) s"
      by simp_all
    then have "s \<noteq> []"
      unfolding scripts_def set_environment_setup_scripts
      by (auto dest: is_setup_script_nonempty)
    with r sel show "main_setup cfg args w destination st =
          main_finish cfg args w destination s
            (logging (''Environment setup script is '' @ quoted s) st')"
      unfolding main_setup_def Let_def scripts_def st0_def
      by simp
    show "has_marker (files st) s" by fact
    have ss: "sorted (filter (has_marker (files st)) scripts)"
      using so by (rule sorted_wrt_filter)
    from sel have ne: "filter (has_marker (files st)) scripts \<noteq> []"
      and la: "s = last (filter (has_marker (files st)) scripts)"
      by (auto simp: selected_def split: list.splits)
    show "\<forall>s' \<in> set scripts. has_marker (files st) s' \<longrightarrow> s' \<le> s"
    proof (intro ballI impI)
      fix s' assume "s' \<in> set scripts" "has_marker (files st) s'"
      then have "s' \<in> set (filter (has_marker (files st)) scripts)" by simp
      with ss show "s' \<le> s"
        unfolding la by (rule sorted_le_last)
    qed
  qed
  show ?thesis
    using so r fin hm mx unfolding scripts_def st0_def by blast
qed

text \<open>
  C5, at the example of the claim: of \<^verbatim>\<open>environment-setup-a\<close> without the marker and
  \<^verbatim>\<open>environment-setup-b\<close> with it, the second is chosen; with the marker in the first only,
  the first is chosen although the second sorts last.
\<close>

theorem select_env_setup_script_witness:
  "fst (relocate_scripts (SDKPATH ex_cfg) ''/opt/sdk''
          (environment_setup_scripts ''/opt/sdk'' (files ex_installed)) None
          (print ''Setting it up...'' ex_installed))
     = Inr (Some ''/opt/sdk/environment-setup-b'') \<and>
   fst (relocate_scripts (SDKPATH ex_cfg) ''/opt/sdk''
          (environment_setup_scripts ''/opt/sdk'' (files ex_installed_first)) None
          (print ''Setting it up...'' ex_installed_first))
     = Inr (Some ''/opt/sdk/environment-setup-a'')"
proof -
  have s: "environment_setup_scripts ''/opt/sdk'' (files ex_installed)
           = [''/opt/sdk/environment-setup-a'', ''/opt/sdk/environment-setup-b'']"
    "environment_setup_scripts ''/opt/sdk'' (files ex_installed_first)
           = [''/opt/sdk/environment-setup-a'', ''/opt/sdk/environment-setup-b'']"
    by code_simp+
  have d: "distinct (map fst (files ex_installed))" "distinct (map fst (files ex_installed_first))"
    by code_simp+
  have h: "\<forall>s \<in> set (environment_setup_scripts ''/opt/sdk'' (files ex_installed)).
           (\<exists>content. map_of (files ex_installed) s = Some (File content)) \<and>
           map_of (files ex_installed) (s @ ''.tmp'') = None \<and>
           s \<notin> set (readonly ex_installed) \<and> s @ ''.tmp'' \<notin> set (readonly ex_installed)"
    unfolding s by (simp add: ex_installed_def st0_def)
  have h': "\<forall>s \<in> set (environment_setup_scripts ''/opt/sdk'' (files ex_installed_first)).
           (\<exists>content. map_of (files ex_installed_first) s = Some (File content)) \<and>
           map_of (files ex_installed_first) (s @ ''.tmp'') = None \<and>
           s \<notin> set (readonly ex_installed_first) \<and> s @ ''.tmp'' \<notin> set (readonly ex_installed_first)"
    unfolding s by (simp add: ex_installed_first_def st0_def)
  have v: "selected (files ex_installed) (environment_setup_scripts ''/opt/sdk'' (files ex_installed))
           = Some ''/opt/sdk/environment-setup-b''"
    "selected (files ex_installed_first)
       (environment_setup_scripts ''/opt/sdk'' (files ex_installed_first))
           = Some ''/opt/sdk/environment-setup-a''"
    by code_simp+
  from select_env_setup_script [OF d(1) h, of ex_cfg] select_env_setup_script [OF d(2) h', of ex_cfg]
  show ?thesis unfolding v by fastforce
qed

subsection \<open>C6: the progress dots\<close>

text \<open>
  C6. When the extraction completes, starting as \<^verbatim>\<open>main\<close> starts it with both counters at
  zero, the running total is the sum of the sizes of the extracted members, and the dots
  written are as many as that total divided by \<^verbatim>\<open>CHECKPOINT\<close>, rounded down. Members
  totalling exactly twice \<^verbatim>\<open>CHECKPOINT\<close> give exactly two dots, however many members
  there are.
\<close>

theorem extract_all_progress:
  assumes "extract_all X d tf (st\<lparr>current_size := 0, printed_checkpoints := 0\<rparr>) = (Inr (), st')"
  shows "current_size st' = extracted_bytes X tf \<and>
         ticks st' = ticks st @ replicate (nat (extracted_bytes X tf div CHECKPOINT)) CHR ''.'' \<and>
         (extracted_bytes X tf = 2 * CHECKPOINT \<longrightarrow> ticks st' = ticks st @ ''..'')"
proof -
  have "printed_checkpoints (st\<lparr>current_size := 0, printed_checkpoints := 0\<rparr>)
        = current_size (st\<lparr>current_size := 0, printed_checkpoints := 0\<rparr>) div CHECKPOINT"
    by simp
  from extract_all_ticks [OF assms this]
  have 1: "current_size st' = extracted_bytes X tf"
    and 2: "ticks st' = ticks st @ replicate (nat (extracted_bytes X tf div CHECKPOINT)) CHR ''.''"
    by (simp_all add: ticks_def)
  have "replicate (nat (2 * CHECKPOINT div CHECKPOINT)) CHR ''.'' = ''..''"
    using CHECKPOINT_pos by (simp add: numeral_2_eq_2)
  with 1 2 show ?thesis by auto
qed

text \<open>
  C6, at an example: four members of 12,800,000 bytes each give two dots.
\<close>

theorem extract_all_progress_witness:
  "ticks (snd (extract_all {} ''/opt/sdk''
                 [ex_chunk ''a'', ex_chunk ''b'', ex_chunk ''c'', ex_chunk ''d'']
                 (st0\<lparr>current_size := 0, printed_checkpoints := 0\<rparr>))) = ''..''"
proof -
  define tf where "tf = [ex_chunk ''a'', ex_chunk ''b'', ex_chunk ''c'', ex_chunk ''d'']"
  have 1: "extract_all {} ''/opt/sdk'' tf (st0\<lparr>current_size := 0, printed_checkpoints := 0\<rparr>)
           = (Inr (), snd (extract_all {} ''/opt/sdk'' tf
                             (st0\<lparr>current_size := 0, printed_checkpoints := 0\<rparr>)))"
  proof -
    have pj: "path_join ''/opt/sdk'' ''a'' = ''/opt/sdk/a''" "path_join ''/opt/sdk'' ''b'' = ''/opt/sdk/b''"
      "path_join ''/opt/sdk'' ''c'' = ''/opt/sdk/c''" "path_join ''/opt/sdk'' ''d'' = ''/opt/sdk/d''"
      by code_simp+
    have "fst (extract_all {} ''/opt/sdk'' tf (st0\<lparr>current_size := 0, printed_checkpoints := 0\<rparr>)) = Inr ()"
      unfolding tf_def
      by (simp add: excluded_def extract_file_def extract_file_remove_def tar_extract_def
          write_file_def extract_file_progress_def logging_def lexists_def ex_chunk_def st0_def pj
          Let_def CHECKPOINT_def)
    then show ?thesis by (simp add: prod_eq_iff)
  qed
  have 2: "extracted_bytes {} tf = 2 * CHECKPOINT"
    unfolding tf_def by (simp add: extracted_bytes_def excluded_def ex_chunk_def CHECKPOINT_def)
  have 3: "ticks st0 = []" by code_simp
  from extract_all_progress [OF 1] 2 3
  have "ticks (snd (extract_all {} ''/opt/sdk'' tf
                      (st0\<lparr>current_size := 0, printed_checkpoints := 0\<rparr>))) = ''..''"
    by (metis append_Nil)
  then show ?thesis unfolding tf_def .
qed

subsection \<open>C7: the order of versions\<close>

text \<open>
  C7. With \<^verbatim>\<open>sort -V\<close> as modelled from the spec, \<^verbatim>\<open>ver_lt("3.10", "3.9")\<close> is false and
  \<^verbatim>\<open>ver_lt("3.9", "3.10")\<close> is true, although \<^verbatim>\<open>"3.10"\<close> is the smaller string; versions with
  different numbers of segments are compared too. In general, for version strings of
  digits and dots, \<^verbatim>\<open>ver_lt\<close> holds exactly when the list of the segments' numbers is
  smaller, from the left and a proper prefix first, or the lists are equal and the first
  string is the smaller one.
\<close>

theorem ver_lt_numeric:
  "ver_lt sort_V ''3.10'' ''3.9'' = Inr False \<and>
   ver_lt sort_V ''3.9'' ''3.10'' = Inr True \<and>
   ''3.10'' < ''3.9'' \<and>
   ver_lt sort_V ''3.9'' ''3.9.1'' = Inr True \<and>
   ver_lt sort_V ''3.10.1'' ''3.9'' = Inr False \<and>
   (dotted_numeric a \<and> dotted_numeric b \<longrightarrow>
      ver_lt sort_V a b =
        Inr (version_key a < version_key b \<or> (version_key a = version_key b \<and> a < b)))"
proof -
  have "ver_lt sort_V ''3.10'' ''3.9'' = Inr False" by code_simp
  moreover have "ver_lt sort_V ''3.9'' ''3.10'' = Inr True" by code_simp
  moreover have "''3.10'' < ''3.9''" by code_simp
  moreover have "ver_lt sort_V ''3.9'' ''3.9.1'' = Inr True" by code_simp
  moreover have "ver_lt sort_V ''3.10.1'' ''3.9'' = Inr False" by code_simp
  moreover have "ver_lt sort_V a b =
        Inr (version_key a < version_key b \<or> (version_key a = version_key b \<and> a < b))"
    if "dotted_numeric a" "dotted_numeric b"
    using ver_lt_sort_V [OF that] by auto
  ultimately show ?thesis by blast
qed

text \<open>
  C7, at an example with different numbers of segments: \<^verbatim>\<open>5.4\<close> is before \<^verbatim>\<open>5.15.0\<close>.
\<close>

theorem ver_lt_numeric_witness:
  "ver_lt sort_V ''5.4'' ''5.15.0'' = Inr True \<and> version_key ''5.4'' = [5, 4] \<and>
   version_key ''5.15.0'' = [5, 15, 0]"
proof -
  have 1: "dotted_numeric ''5.4''" "dotted_numeric ''5.15.0''"
    by code_simp+
  have 2: "version_key ''5.4'' = [5, 4]" "version_key ''5.15.0'' = [5, 15, 0]"
    by code_simp+
  have 3: "[5, 4] < [5, 15, 0 :: nat]" by simp
  from ver_lt_numeric [of "''5.4''" "''5.15.0''"] 1 2 3 show ?thesis
    by simp
qed

subsection \<open>C8: no canonical script\<close>

text \<open>
  C8. When the relocation of the environment setup scripts completes and has found the
  marker in none of them, \<^verbatim>\<open>main\<close> reads \<^verbatim>\<open>env_setup_script\<close> unassigned: the part of \<^verbatim>\<open>main\<close>
  after the extraction ends with \<^verbatim>\<open>UnboundLocalError\<close>, a \<^verbatim>\<open>NameError\<close>, and so does \<^verbatim>\<open>main\<close>,
  which has no handler for it. That is so when there is no script at all, and when every
  script is a regular, changeable file without the marker. Conversely, when that part
  of \<^verbatim>\<open>main\<close> returns an exit status, the relocation of one of the scripts has reported the
  marker.
\<close>

theorem no_canonical_script_unbound:
  "(relocate_scripts (SDKPATH cfg) destination
      (environment_setup_scripts destination (files st)) None (print ''Setting it up...'' st)
      = (Inr None, st') \<longrightarrow>
    main_setup cfg args w destination st = (Inl (UnboundLocalError ''env_setup_script''), st'))
   \<and>
   (environment_setup_scripts destination (files st) = [] \<longrightarrow>
    fst (main_setup cfg args w destination st) = Inl (UnboundLocalError ''env_setup_script''))
   \<and>
   (distinct (map fst (files st)) \<and>
    (\<forall>s \<in> set (environment_setup_scripts destination (files st)).
        (\<exists>content. map_of (files st) s = Some (File content)) \<and>
        map_of (files st) (s @ ''.tmp'') = None \<and>
        s \<notin> set (readonly st) \<and> s @ ''.tmp'' \<notin> set (readonly st) \<and>
        \<not> has_marker (files st) s) \<longrightarrow>
    fst (main_setup cfg args w destination st) = Inl (UnboundLocalError ''env_setup_script''))
   \<and>
   (fst (main_setup cfg args w destination st) = Inr c \<longrightarrow>
    (\<exists>s \<in> set (environment_setup_scripts destination (files st)).
        \<exists>sa sb. relocate_file (SDKPATH cfg) destination s sa = (Inr True, sb)))
   \<and>
   (main_prepare cfg args w st0 = (Next (X, destination), st1) \<and>
    length destination \<le> 2048 \<and> \<not> list_ex isspace destination \<and>
    main_confirm cfg args destination st1 = (True, st2) \<and>
    main_extract cfg args w X destination st2 = (Next (), st) \<and>
    relocate_scripts (SDKPATH cfg) destination
      (environment_setup_scripts destination (files st)) None (print ''Setting it up...'' st)
      = (Inr None, st') \<longrightarrow>
    main cfg args w st0 = (Inl (UnboundLocalError ''env_setup_script''), st'))"
proof -
  let ?scripts = "environment_setup_scripts destination (files st)"
  let ?run = "relocate_scripts (SDKPATH cfg) destination ?scripts None (print ''Setting it up...'' st)"
  have 1: "main_setup cfg args w destination st = (Inl (UnboundLocalError ''env_setup_script''), st')"
    if "?run = (Inr None, st')" for st'
    using that by (rule main_setup_None)
  have 2: "fst (main_setup cfg args w destination st) = Inl (UnboundLocalError ''env_setup_script'')"
    if "?scripts = []"
    using that by (simp add: main_setup_def Let_def)
  have 3: "fst (main_setup cfg args w destination st) = Inl (UnboundLocalError ''env_setup_script'')"
    if d: "distinct (map fst (files st))"
      and wf: "\<forall>s \<in> set ?scripts.
        (\<exists>content. map_of (files st) s = Some (File content)) \<and>
        map_of (files st) (s @ ''.tmp'') = None \<and>
        s \<notin> set (readonly st) \<and> s @ ''.tmp'' \<notin> set (readonly st) \<and>
        \<not> has_marker (files st) s"
  proof -
    from wf have "selected (files st) ?scripts = None"
      by (intro selected_None) blast
    moreover from wf have "\<forall>s \<in> set ?scripts.
        (\<exists>content. map_of (files st) s = Some (File content)) \<and>
        map_of (files st) (s @ ''.tmp'') = None \<and>
        s \<notin> set (readonly st) \<and> s @ ''.tmp'' \<notin> set (readonly st)"
      by blast
    ultimately obtain st'' where "?run = (Inr None, st'')"
      using main_setup_relocated [OF d, of destination cfg] by auto
    then show ?thesis using main_setup_None by fastforce
  qed
  have 4: "\<exists>s \<in> set ?scripts. \<exists>sa sb. relocate_file (SDKPATH cfg) destination s sa = (Inr True, sb)"
    if "fst (main_setup cfg args w destination st) = Inr c"
  proof -
    from main_finish_not_unbound [OF that] obtain s st'' where "?run = (Inr (Some s), st'')"
      by blast
    from relocate_scripts_Some [OF this] show ?thesis by auto
  qed
  have 5: "main cfg args w st0 = (Inl (UnboundLocalError ''env_setup_script''), st')"
    if "main_prepare cfg args w st0 = (Next (X, destination), st1)"
      "length destination \<le> 2048" "\<not> list_ex isspace destination"
      "main_confirm cfg args destination st1 = (True, st2)"
      "main_extract cfg args w X destination st2 = (Next (), st)"
      "?run = (Inr None, st')"
    using that 1 by (simp add: main_def)
  from 1 2 3 4 5 show ?thesis by blast
qed

text \<open>
  C8, at two examples: a destination whose only script lacks the marker, and an empty
  file system.
\<close>

theorem no_canonical_script_unbound_witness:
  "fst (main_setup ex_cfg ex_args ex_world ''/opt/sdk'' ex_installed_decoy)
     = Inl (UnboundLocalError ''env_setup_script'') \<and>
   fst (main_setup ex_cfg ex_args ex_world ''/opt/sdk'' st0)
     = Inl (UnboundLocalError ''env_setup_script'')"
proof -
  have s: "environment_setup_scripts ''/opt/sdk'' (files ex_installed_decoy)
           = [''/opt/sdk/environment-setup-a'']"
    "environment_setup_scripts ''/opt/sdk'' (files st0) = []"
    by code_simp+
  have d: "distinct (map fst (files ex_installed_decoy))"
    by code_simp
  have m: "\<not> has_marker (files ex_installed_decoy) ''/opt/sdk/environment-setup-a''"
    by code_simp
  have h: "\<forall>s \<in> set (environment_setup_scripts ''/opt/sdk'' (files ex_installed_decoy)).
        (\<exists>content. map_of (files ex_installed_decoy) s = Some (File content)) \<and>
        map_of (files ex_installed_decoy) (s @ ''.tmp'') = None \<and>
        s \<notin> set (readonly ex_installed_decoy) \<and> s @ ''.tmp'' \<notin> set (readonly ex_installed_decoy) \<and>
        \<not> has_marker (files ex_installed_decoy) s"
    unfolding s using m by (simp add: ex_installed_decoy_def st0_def)
  from no_canonical_script_unbound [of ex_cfg "''/opt/sdk''" ex_installed_decoy _ ex_args ex_world]
    no_canonical_script_unbound [of ex_cfg "''/opt/sdk''" st0 _ ex_args ex_world]
    d h s(2)
  show ?thesis by blast
qed

subsection \<open>C9: the answer to a prompt\<close>

text \<open>
  C9. At every confirmation prompt, end of file and an empty line give the prompt's
  default answer. A non-empty line is an acceptance exactly when it is \<^verbatim>\<open>y\<close> after
  lowering and stripping, that is, when it is one \<^verbatim>\<open>y\<close> or \<^verbatim>\<open>Y\<close> between white space; so
  the line \<^verbatim>\<open>yes\<close> declines.
\<close>

theorem prompt_bool_answer:
  "(stdin st = [] \<longrightarrow> fst (prompt_bool p d st) = d) \<and>
   (stdin st = [] # ls \<longrightarrow> fst (prompt_bool p d st) = d) \<and>
   (stdin st = l # ls \<and> l \<noteq> [] \<longrightarrow>
      fst (prompt_bool p d st) = (strip (lower l) = ''y'') \<and>
      fst (prompt_bool p d st) =
        (\<exists>a c b. l = a @ [c] @ b \<and> (\<forall>x \<in> set a. isspace x) \<and> (\<forall>x \<in> set b. isspace x)
           \<and> (c = CHR ''y'' \<or> c = CHR ''Y''))) \<and>
   (stdin st = ''yes'' # ls \<longrightarrow> fst (prompt_bool p d st) = False)"
proof -
  have "strip (lower ''yes'') \<noteq> ''y''" by code_simp
  then have "fst (prompt_bool p d st) = False" if "stdin st = ''yes'' # ls"
    using prompt_bool_line [OF that, of p d] by simp
  moreover have "fst (prompt_bool p d st) = d" if "stdin st = [] # ls"
    using prompt_bool_line [OF that, of p d] by simp
  moreover have "fst (prompt_bool p d st) = (strip (lower l) = ''y'')"
    if "stdin st = l # ls" and "l \<noteq> []"
    using prompt_bool_line [OF that(1), of p d] that(2) by simp
  ultimately show ?thesis
    unfolding strip_lower_eq_y [symmetric] using prompt_bool_eof [of st p d] by blast
qed

text \<open>
  C9, at examples: \<^verbatim>\<open> Y \<close> accepts, \<^verbatim>\<open>yes\<close> declines, end of file and the empty line give
  the default.
\<close>

theorem prompt_bool_answer_witness:
  "fst (prompt_bool ''Proceed?'' False (st0\<lparr>stdin := ['' Y '']\<rparr>)) = True \<and>
   fst (prompt_bool ''Proceed?'' True (st0\<lparr>stdin := [''yes'']\<rparr>)) = False \<and>
   fst (prompt_bool ''Proceed?'' True st0) = True \<and>
   fst (prompt_bool ''Proceed?'' False (st0\<lparr>stdin := ['''']\<rparr>)) = False"
proof -
  have "strip (lower '' Y '') = ''y''" by code_simp
  moreover have "'' Y '' \<noteq> []" by simp
  moreover have "stdin (st0\<lparr>stdin := ['' Y '']\<rparr>) = '' Y '' # []" 
    and "stdin (st0\<lparr>stdin := [''yes'']\<rparr>) = ''yes'' # []"
    and "stdin (st0\<lparr>stdin := ['''']\<rparr>) = [] # []"
    and "stdin st0 = []" by (simp_all add: st0_def)
  ultimately show ?thesis
    using prompt_bool_answer [of "st0\<lparr>stdin := ['' Y '']\<rparr>" "''Proceed?''" False "[]" "'' Y ''"]
      prompt_bool_answer [of "st0\<lparr>stdin := [''yes'']\<rparr>" "''Proceed?''" True "[]" "''yes''"]
      prompt_bool_answer [of "st0\<lparr>stdin := ['''']\<rparr>" "''Proceed?''" False "[]" "[]"]
      prompt_bool_answer [of "st0" "''Proceed?''" True "[]" "[]"]
    by metis
qed

subsection \<open>C10: a directory is left in place\<close>

text \<open>
  C10. When the path of a member exists, is not a symbolic link and is a directory,
  \<^verbatim>\<open>extract_file\<close> removes nothing: the removal step returns the state as it is, and after
  the extraction of the member, of whatever kind and whether it succeeds or not, the
  file system is unchanged and the directory is still there. The removal step changes
  the file system only when a symbolic link or something that is not a directory lies
  at the path.
\<close>

theorem extract_file_keeps_directory:
  "(lexists (files st) (path_join destination (f_name f))
      \<and> \<not> islink (files st) (path_join destination (f_name f))
      \<and> isdir (files st) (path_join destination (f_name f)) \<longrightarrow>
    extract_file_remove destination f st = (Inr (), st) \<and>
    files (snd (extract_file destination f st)) = files st \<and>
    map_of (files (snd (extract_file destination f st))) (path_join destination (f_name f)) = Some Dir)
   \<and>
   (files (snd (extract_file_remove destination f st)) \<noteq> files st \<longrightarrow>
    lexists (files st) (path_join destination (f_name f)) \<and>
    (islink (files st) (path_join destination (f_name f))
     \<or> \<not> isdir (files st) (path_join destination (f_name f))))"
proof -
  define dest where "dest = path_join destination (f_name f)"
  have 1: "extract_file_remove destination f st = (Inr (), st) \<and>
    files (snd (extract_file destination f st)) = files st \<and>
    map_of (files (snd (extract_file destination f st))) dest = Some Dir"
    if h: "lexists (files st) dest" "\<not> islink (files st) dest" "isdir (files st) dest"
  proof -
    from h have d: "map_of (files st) dest = Some Dir"
      by (simp add: isdir_iff_Dir)
    then have r: "extract_file_remove destination f st = (Inr (), st)"
      unfolding extract_file_remove_unfold dest_def by simp
    have "files (snd (tar_extract f destination (logging (''Extracting '' @ quoted dest) st))) = files st"
      using tar_extract_on_Dir [of "logging (''Extracting '' @ quoted dest) st" destination f] d
      by (simp add: dest_def)
    then have "files (snd (extract_file destination f st)) = files st"
      using r by (auto simp: extract_file_def dest_def split: prod.splits sum.splits)
    with r d show ?thesis by simp
  qed
  have 2: "lexists (files st) dest \<and> (islink (files st) dest \<or> \<not> isdir (files st) dest)"
    if "files (snd (extract_file_remove destination f st)) \<noteq> files st"
    using that unfolding extract_file_remove_def Let_def dest_def [symmetric]
    by (auto split: if_splits)
  from 1 2 show ?thesis unfolding dest_def by blast
qed

text \<open>
  C10, at an example: the directory \<^verbatim>\<open>lib\<close> stays when the member \<^verbatim>\<open>lib\<close> is extracted,
  while the symbolic link \<^verbatim>\<open>bin\<close> is removed for the member \<^verbatim>\<open>bin\<close>.
\<close>

theorem extract_file_keeps_directory_witness:
  "extract_file_remove ''/opt/sdk'' ex_lib ex_state = (Inr (), ex_state) \<and>
   map_of (files (snd (extract_file ''/opt/sdk'' ex_lib ex_state))) ''/opt/sdk/lib'' = Some Dir \<and>
   files (snd (extract_file_remove ''/opt/sdk'' ex_bin ex_state)) \<noteq> files ex_state"
proof -
  have p: "path_join ''/opt/sdk'' (f_name ex_lib) = ''/opt/sdk/lib''"
    by code_simp
  have 1: "lexists (files ex_state) (path_join ''/opt/sdk'' (f_name ex_lib))"
    and 2: "\<not> islink (files ex_state) (path_join ''/opt/sdk'' (f_name ex_lib))"
    and 3: "isdir (files ex_state) (path_join ''/opt/sdk'' (f_name ex_lib))"
    by code_simp+
  have 4: "files (snd (extract_file_remove ''/opt/sdk'' ex_bin ex_state)) \<noteq> files ex_state"
    by code_simp
  from extract_file_keeps_directory [of ex_state "''/opt/sdk''" ex_lib] 1 2 3 4
  show ?thesis unfolding p by blast
qed

end
